theory Spec2Isabelle
  imports Complex_Main "HOL-Library.Char_ord" "HOL-Library.List_Lexorder"
begin

section \<open>JavaScript numbers and the built-ins the services call\<close>

text \<open>
  A JavaScript \<open>number\<close> is a double: a finite value, one of the two infinities, or
  \<open>NaN\<close>. The filters only compare, clamp, add and subtract numbers, so the finite values
  are modelled as reals: the rounding of a decimal literal or of a sum to the nearest double
  is not modelled, and \<open>-0\<close> is not told apart from \<open>0\<close>.
\<close>

datatype jsnum = NaN | NegInf | Fin real | PosInf

text \<open>The relational operators \<open><=\<close> and \<open><\<close>: false whenever an operand is \<open>NaN\<close>.\<close>

fun js_le :: "jsnum \<Rightarrow> jsnum \<Rightarrow> bool" where
  "js_le NaN _ = False"
| "js_le _ NaN = False"
| "js_le NegInf _ = True"
| "js_le _ PosInf = True"
| "js_le (Fin a) (Fin b) = (a \<le> b)"
| "js_le (Fin _) NegInf = False"
| "js_le PosInf (Fin _) = False"
| "js_le PosInf NegInf = False"

fun js_lt :: "jsnum \<Rightarrow> jsnum \<Rightarrow> bool" where
  "js_lt NaN _ = False"
| "js_lt _ NaN = False"
| "js_lt (Fin a) (Fin b) = (a < b)"
| "js_lt NegInf NegInf = False"
| "js_lt NegInf _ = True"
| "js_lt PosInf _ = False"
| "js_lt (Fin _) PosInf = True"
| "js_lt (Fin _) NegInf = False"

text \<open>\<open>a >= b\<close> is \<open>b <= a\<close>, and \<open>a > b\<close> is \<open>b < a\<close>.\<close>

abbreviation js_ge :: "jsnum \<Rightarrow> jsnum \<Rightarrow> bool" where
  "js_ge a b \<equiv> js_le b a"

abbreviation js_gt :: "jsnum \<Rightarrow> jsnum \<Rightarrow> bool" where
  "js_gt a b \<equiv> js_lt b a"

text \<open>Strict equality \<open>===\<close> on numbers: \<open>NaN\<close> is not equal to itself.\<close>

definition js_eq :: "jsnum \<Rightarrow> jsnum \<Rightarrow> bool" where
  "js_eq a b = (a \<noteq> NaN \<and> b \<noteq> NaN \<and> a = b)"

text \<open>The global \<open>isNaN\<close> and \<open>Number.isNaN\<close>, on an argument that is a number.\<close>

definition isNaN :: "jsnum \<Rightarrow> bool" where
  "isNaN x = (x = NaN)"

text \<open>\<open>Number.isFinite\<close>: neither \<open>NaN\<close> nor an infinity.\<close>

definition isFinite :: "jsnum \<Rightarrow> bool" where
  "isFinite x = (case x of Fin r \<Rightarrow> True | _ \<Rightarrow> False)"

text \<open>Addition and subtraction: \<open>NaN\<close> is absorbing, \<open>Infinity - Infinity\<close> is \<open>NaN\<close>.\<close>

fun js_neg :: "jsnum \<Rightarrow> jsnum" where
  "js_neg NaN = NaN"
| "js_neg NegInf = PosInf"
| "js_neg PosInf = NegInf"
| "js_neg (Fin a) = Fin (- a)"

fun js_add :: "jsnum \<Rightarrow> jsnum \<Rightarrow> jsnum" where
  "js_add NaN _ = NaN"
| "js_add _ NaN = NaN"
| "js_add (Fin a) (Fin b) = Fin (a + b)"
| "js_add PosInf NegInf = NaN"
| "js_add NegInf PosInf = NaN"
| "js_add PosInf _ = PosInf"
| "js_add NegInf _ = NegInf"
| "js_add (Fin _) PosInf = PosInf"
| "js_add (Fin _) NegInf = NegInf"

definition js_sub :: "jsnum \<Rightarrow> jsnum \<Rightarrow> jsnum" where
  "js_sub a b = js_add a (js_neg b)"

subsection \<open>lodash \<open>clamp\<close>\<close>

text \<open>
  \<open>baseClamp(number, lower, upper)\<close> of lodash with both bounds given:
  a \<open>NaN\<close> is returned as it is; otherwise the number is cut at \<open>upper\<close>, then at
  \<open>lower\<close>. \<open>clamp\<close> first replaces a \<open>NaN\<close> bound by \<open>0\<close>.
\<close>

definition baseClamp :: "jsnum \<Rightarrow> jsnum \<Rightarrow> jsnum \<Rightarrow> jsnum" where
  "baseClamp number lower upper =
     (if js_eq number number
      then (let n1 = (if js_le number upper then number else upper)
            in (if js_ge n1 lower then n1 else lower))
      else number)"

definition clamp :: "jsnum \<Rightarrow> jsnum \<Rightarrow> jsnum \<Rightarrow> jsnum" where
  "clamp number lower upper =
     baseClamp number
       (if js_eq lower lower then lower else Fin 0)
       (if js_eq upper upper then upper else Fin 0)"

subsection \<open>Strings: \<open>includes\<close>, \<open>split\<close> and \<open>parseFloat\<close>\<close>

text \<open>\<open>value.includes("-")\<close> for a one-character needle.\<close>

definition includes_str :: "string \<Rightarrow> char \<Rightarrow> bool" where
  "includes_str s c = (c \<in> set s)"

text \<open>
  \<open>s.split(c)\<close> for a one-character separator: the pieces between the separators, in
  order; a string without the separator is the only piece, the empty string too.
\<close>

fun split :: "string \<Rightarrow> char \<Rightarrow> string list" where
  "split [] c = [[]]"
| "split (x # xs) c =
     (if x = c then [] # split xs c
      else (case split xs c of
              [] \<Rightarrow> [[x]]
            | p # ps \<Rightarrow> (x # p) # ps))"

text \<open>
  An array element read by a destructuring pattern, then passed to \<open>parseFloat\<close>: a
  position past the end reads \<open>undefined\<close>, which \<open>parseFloat\<close> turns into the string
  \<open>"undefined"\<close>.
\<close>

definition element_string :: "string list \<Rightarrow> nat \<Rightarrow> string" where
  "element_string parts i = (if i < length parts then parts ! i else ''undefined'')"

definition is_digit :: "char \<Rightarrow> bool" where
  "is_digit c = (c \<in> set ''0123456789'')"

text \<open>The value of a digit is its position in \<open>"0123456789"\<close>.\<close>

definition digit_value :: "char \<Rightarrow> nat" where
  "digit_value c = length (takeWhile (\<lambda>d. d \<noteq> c) ''0123456789'')"

text \<open>The value of a run of decimal digits, read left to right.\<close>

definition digits_value :: "string \<Rightarrow> nat" where
  "digits_value ds = foldl (\<lambda>acc d. 10 * acc + digit_value d) 0 ds"

text \<open>
  A string is the list of the bytes of its UTF-8 encoding. \<open>parseFloat\<close> first drops
  the leading white space and line terminators of the language: the ASCII ones (tab, line
  feed, vertical tab, form feed, carriage return, space) are one byte each; U+00A0 is two
  bytes; U+1680, U+2000 to U+200A, U+2028, U+2029, U+202F, U+205F, U+3000 and U+FEFF are
  three bytes each.
\<close>

definition is_space :: "char \<Rightarrow> bool" where
  "is_space c = (c \<in> {CHR 0x09, CHR 0x0A, CHR 0x0B, CHR 0x0C, CHR 0x0D, CHR '' ''})"

definition is_space2 :: "string \<Rightarrow> bool" where
  "is_space2 bs = (bs = [CHR 0xC2, CHR 0xA0])"

definition is_space3 :: "string \<Rightarrow> bool" where
  "is_space3 bs =
     (bs \<in> {[CHR 0xE1, CHR 0x9A, CHR 0x80],
             [CHR 0xE2, CHR 0x80, CHR 0x80], [CHR 0xE2, CHR 0x80, CHR 0x81],
             [CHR 0xE2, CHR 0x80, CHR 0x82], [CHR 0xE2, CHR 0x80, CHR 0x83],
             [CHR 0xE2, CHR 0x80, CHR 0x84], [CHR 0xE2, CHR 0x80, CHR 0x85],
             [CHR 0xE2, CHR 0x80, CHR 0x86], [CHR 0xE2, CHR 0x80, CHR 0x87],
             [CHR 0xE2, CHR 0x80, CHR 0x88], [CHR 0xE2, CHR 0x80, CHR 0x89],
             [CHR 0xE2, CHR 0x80, CHR 0x8A], [CHR 0xE2, CHR 0x80, CHR 0xA8],
             [CHR 0xE2, CHR 0x80, CHR 0xA9], [CHR 0xE2, CHR 0x80, CHR 0xAF],
             [CHR 0xE2, CHR 0x81, CHR 0x9F], [CHR 0xE3, CHR 0x80, CHR 0x80],
             [CHR 0xEF, CHR 0xBB, CHR 0xBF]})"

fun trim_start :: "string \<Rightarrow> string" where
  "trim_start [] = []"
| "trim_start (c # cs) =
     (if is_space c then trim_start cs
      else if is_space2 (take 2 (c # cs)) then trim_start (drop 1 cs)
      else if is_space3 (take 3 (c # cs)) then trim_start (drop 2 cs)
      else c # cs)"

text \<open>
  The exponent part of a decimal literal, if the text starts with one: \<open>e\<close> or \<open>E\<close>, an
  optional sign and at least one digit. The result is the factor it stands for.
\<close>

definition exponent_factor :: "string \<Rightarrow> real" where
  "exponent_factor s =
     (case s of
        [] \<Rightarrow> 1
      | e # r \<Rightarrow>
          if e = CHR ''e'' \<or> e = CHR ''E'' then
            (case r of
               [] \<Rightarrow> 1
             | sg # r' \<Rightarrow>
                 if sg = CHR ''-'' then
                   (if takeWhile is_digit r' = [] then 1
                    else 1 / 10 ^ digits_value (takeWhile is_digit r'))
                 else if sg = CHR ''+'' then
                   (if takeWhile is_digit r' = [] then 1
                    else 10 ^ digits_value (takeWhile is_digit r'))
                 else
                   (if takeWhile is_digit r = [] then 1
                    else 10 ^ digits_value (takeWhile is_digit r)))
          else 1)"

text \<open>
  The longest prefix that is an unsigned decimal literal of the string grammar
  (\<open>Infinity\<close>, \<open>digits . digits? exponent?\<close>, \<open>. digits exponent?\<close>,
  \<open>digits exponent?\<close>), and its value; \<open>NaN\<close> when no prefix is one.
\<close>

definition parse_unsigned :: "string \<Rightarrow> jsnum" where
  "parse_unsigned s =
     (if take 8 s = ''Infinity'' then PosInf
      else
        (let ip = takeWhile is_digit s;
             r1 = dropWhile is_digit s
         in (case r1 of
               [] \<Rightarrow> (if ip = [] then NaN else Fin (real (digits_value ip)))
             | d # r2 \<Rightarrow>
                 if d = CHR ''.'' then
                   (let fp = takeWhile is_digit r2;
                        r3 = dropWhile is_digit r2
                    in if ip = [] \<and> fp = [] then NaN
                       else Fin ((real (digits_value ip)
                                  + real (digits_value fp) / 10 ^ length fp)
                                 * exponent_factor r3))
                 else
                   (if ip = [] then NaN
                    else Fin (real (digits_value ip) * exponent_factor r1)))))"

text \<open>
  \<open>parseFloat(string)\<close>: leading white space is skipped, an optional sign is read, and
  the longest prefix of the rest that is a decimal literal gives the value.
\<close>

definition parseFloat :: "string \<Rightarrow> jsnum" where
  "parseFloat s =
     (case trim_start s of
        [] \<Rightarrow> NaN
      | c # r \<Rightarrow>
          if c = CHR ''-'' then js_neg (parse_unsigned r)
          else if c = CHR ''+'' then parse_unsigned r
          else parse_unsigned (c # r))"

section \<open>ratingsService\<close>

definition DEFAULT_RATINGS_MIN :: jsnum where
  "DEFAULT_RATINGS_MIN = Fin 1"

definition DEFAULT_RATINGS_MAX :: jsnum where
  "DEFAULT_RATINGS_MAX = Fin 10"

definition DEFAULT_RANGE :: "jsnum \<times> jsnum" where
  "DEFAULT_RANGE = (DEFAULT_RATINGS_MIN, DEFAULT_RATINGS_MAX)"

text \<open>
  The persisted value is \<open>string | null\<close>: \<open>None\<close> is \<open>null\<close>. \<open>!value\<close> holds for
  \<open>null\<close> and for the empty string.
\<close>

definition convertRangeQueryParamToValue :: "string option \<Rightarrow> jsnum \<times> jsnum" where
  "convertRangeQueryParamToValue v =
     (case v of
        None \<Rightarrow> DEFAULT_RANGE
      | Some val \<Rightarrow>
          if val = [] then DEFAULT_RANGE
          else
            (let normalizedValue =
                   (if includes_str val (CHR ''-'') then val else val @ ''-'' @ val);
                 parts = split normalizedValue (CHR ''-'');
                 minRangeStr = element_string parts 0;
                 maxRangeStr = element_string parts 1;
                 parsedMinRange = parseFloat minRangeStr;
                 minRange =
                   (if isNaN parsedMinRange then DEFAULT_RATINGS_MIN
                    else clamp parsedMinRange DEFAULT_RATINGS_MIN DEFAULT_RATINGS_MAX);
                 parsedMaxRange = parseFloat maxRangeStr;
                 maxRange =
                   (if isNaN parsedMaxRange then DEFAULT_RATINGS_MAX
                    else clamp parsedMaxRange DEFAULT_RATINGS_MIN DEFAULT_RATINGS_MAX)
             in (minRange, maxRange)))"


section \<open>The filter state and the collection\<close>

datatype RatingsMode = NO_RATING | AVERAGE_RATING | USER_RATING

text \<open>\<open>CollectionFilterState\<close>: the type of \<open>initialFilterState\<close>.\<close>

record CollectionFilterState =
  username :: string
  showInvalidPlayerCount :: bool
  playerCountRange :: "jsnum \<times> jsnum"
  playtimeRange :: "jsnum \<times> jsnum"
  complexityRange :: "jsnum \<times> jsnum"
  showExpansions :: bool
  showRatings :: RatingsMode
  ratingsRange :: "jsnum \<times> jsnum"
  showNotRecommended :: bool
  isDebug :: bool

text \<open>
  One entry of a game's \<open>recommendedPlayerCount\<close>, with the fields the services read;
  \<open>numplayers\<close> is a number or a label such as \<open>"4+"\<close>.
\<close>

record PollEntry =
  numplayers :: "jsnum + string"
  playerCountValue :: jsnum
  sortScore :: jsnum
  NotRecommendedPercent :: jsnum

text \<open>The entry after \<open>addIsPlayerCountWithinRange\<close>: \<open>{...rec, isPlayerCountWithinRange}\<close>.\<close>

record AnnotatedPollEntry = PollEntry +
  isPlayerCountWithinRange :: bool

text \<open>
  A game of the collection, over the type of its poll entries. A rating is a number or a
  string (\<open>"N/A"\<close>); the services test it with \<open>typeof\<close>.
\<close>

record 'r Game =
  id_field :: string
  name :: string
  type_field :: string
  thumbnail :: string
  minPlayers :: jsnum
  maxPlayers :: jsnum
  minPlaytime :: jsnum
  maxPlaytime :: jsnum
  averageWeight :: jsnum
  userRating :: "jsnum + string"
  averageRating :: "jsnum + string"
  recommendedPlayerCount :: "'r list"

type_synonym SimpleBoardGame = "PollEntry Game"

type_synonym BoardGame = "AnnotatedPollEntry Game"

text \<open>
  The code of the repository that the two service files import and that is not among the
  sources is a parameter of the model: the helper of \<open>slider-utils\<close>, the membership
  predicates of the three other range services, and the locale comparison of the host
  (\<open>String.prototype.localeCompare\<close>, whose result is negative, zero or positive).
\<close>

record Imports =
  isBoardGameRangeWithinFilterRange :: "jsnum \<times> jsnum \<Rightarrow> jsnum \<times> jsnum \<Rightarrow> bool"
  playerCountService_isWithinRange :: "CollectionFilterState \<Rightarrow> SimpleBoardGame \<Rightarrow> bool"
  playtimeService_isWithinRange :: "CollectionFilterState \<Rightarrow> SimpleBoardGame \<Rightarrow> bool"
  complexityService_isWithinRange :: "CollectionFilterState \<Rightarrow> SimpleBoardGame \<Rightarrow> bool"
  localeCompare :: "string \<Rightarrow> string \<Rightarrow> int"

subsection \<open>ratingsService: state and membership\<close>

text \<open>
  \<open>getInitialState\<close> decodes what \<open>getQueryParamValue("ratings")\<close> returns; the
  argument is that function, the persisted store read by key.
\<close>

definition QUERY_PARAM_RATINGS :: string where
  "QUERY_PARAM_RATINGS = ''ratings''"

definition getInitialState :: "(string \<Rightarrow> string option) \<Rightarrow> jsnum \<times> jsnum" where
  "getInitialState getQueryParamValue =
     convertRangeQueryParamToValue (getQueryParamValue QUERY_PARAM_RATINGS)"

definition getReducedState ::
  "CollectionFilterState \<Rightarrow> jsnum \<times> jsnum \<Rightarrow> CollectionFilterState" where
  "getReducedState state payload =
     (case payload of (minRange, maxRange) \<Rightarrow>
        state\<lparr>ratingsRange := (minRange, maxRange)\<rparr>)"

definition isWithinRange :: "Imports \<Rightarrow> CollectionFilterState \<Rightarrow> 'r Game \<Rightarrow> bool" where
  "isWithinRange imp filterState game =
     (let userOrAverageRating =
            (if showRatings filterState = USER_RATING then userRating game
             else averageRating game);
          rating =
            (case userOrAverageRating of
               Inl n \<Rightarrow> n
             | Inr _ \<Rightarrow> DEFAULT_RATINGS_MIN)
      in isBoardGameRangeWithinFilterRange imp (rating, rating) (ratingsRange filterState))"

section \<open>The pipeline of useCollectionFilters\<close>

text \<open>
  \<open>maybeOutputList\<close> writes to the console when \<open>isDebug\<close> is set and returns the game
  it was given; the console is not part of the model.
\<close>

definition maybeOutputList :: "CollectionFilterState \<Rightarrow> string \<Rightarrow> 'g \<Rightarrow> 'g" where
  "maybeOutputList filterState groupLabel game = game"

definition maybeShowExpansions :: "CollectionFilterState \<Rightarrow> 'r Game \<Rightarrow> bool" where
  "maybeShowExpansions filterState game =
     (if showExpansions filterState then True else type_field game = ''boardgame'')"

definition removeRecsLessThan :: "jsnum \<Rightarrow> PollEntry \<Rightarrow> bool" where
  "removeRecsLessThan minP rec = js_ge (playerCountValue rec) minP"

definition removeRecsMoreThan :: "jsnum \<Rightarrow> PollEntry \<Rightarrow> bool" where
  "removeRecsMoreThan maxP rec = js_le (playerCountValue rec) maxP"

definition maybeShowInvalidPlayerCount ::
  "CollectionFilterState \<Rightarrow> SimpleBoardGame \<Rightarrow> SimpleBoardGame" where
  "maybeShowInvalidPlayerCount filterState game =
     (if showInvalidPlayerCount filterState then game
      else game\<lparr>recommendedPlayerCount :=
             filter (removeRecsMoreThan (maxPlayers game))
               (filter (removeRecsLessThan (minPlayers game))
                  (recommendedPlayerCount game))\<rparr>)"

text \<open>\<open>{...rec, isPlayerCountWithinRange: b}\<close>\<close>

definition annotate :: "PollEntry \<Rightarrow> bool \<Rightarrow> AnnotatedPollEntry" where
  "annotate rec b =
     \<lparr>numplayers = numplayers rec, playerCountValue = playerCountValue rec,
      sortScore = sortScore rec, NotRecommendedPercent = NotRecommendedPercent rec,
      isPlayerCountWithinRange = b\<rparr>"

text \<open>\<open>{...game, recommendedPlayerCount: recs}\<close>, where the entries change their type.\<close>

definition with_recommendedPlayerCount :: "'a Game \<Rightarrow> 'b list \<Rightarrow> 'b Game" where
  "with_recommendedPlayerCount game recs =
     \<lparr>id_field = id_field game, name = name game, type_field = type_field game,
      thumbnail = thumbnail game, minPlayers = minPlayers game,
      maxPlayers = maxPlayers game, minPlaytime = minPlaytime game,
      maxPlaytime = maxPlaytime game, averageWeight = averageWeight game,
      userRating = userRating game, averageRating = averageRating game,
      recommendedPlayerCount = recs\<rparr>"

definition addIsPlayerCountWithinRange ::
  "CollectionFilterState \<Rightarrow> SimpleBoardGame \<Rightarrow> BoardGame" where
  "addIsPlayerCountWithinRange filterState game =
     (case playerCountRange filterState of (minFilterCount, maxFilterCount) \<Rightarrow>
        with_recommendedPlayerCount game
          (map (\<lambda>rec. annotate rec
                  (js_le minFilterCount (playerCountValue rec) \<and>
                   js_le (playerCountValue rec) maxFilterCount))
             (recommendedPlayerCount game)))"

definition maybeShowNotRecommended :: "CollectionFilterState \<Rightarrow> BoardGame \<Rightarrow> bool" where
  "maybeShowNotRecommended filterState game =
     (if showNotRecommended filterState \<or> showInvalidPlayerCount filterState then True
      else length
             (filter
                (\<lambda>rec. isPlayerCountWithinRange rec \<and>
                   (js_le (NotRecommendedPercent rec) (Fin 50) \<or>
                    isNaN (NotRecommendedPercent rec)))
                (recommendedPlayerCount game)) > 0)"

definition calcSortScoreSum ::
  "('z PollEntry_scheme) Game \<Rightarrow> jsnum \<Rightarrow> jsnum \<Rightarrow> jsnum" where
  "calcSortScoreSum game minRange maxRange =
     foldl (\<lambda>prev curr. js_add (sortScore curr) prev) (Fin 0)
       (filter (\<lambda>g. js_le minRange (playerCountValue g) \<and> js_le (playerCountValue g) maxRange)
          (recommendedPlayerCount game))"

definition maybeSortByScore ::
  "Imports \<Rightarrow> CollectionFilterState \<Rightarrow>
   ('z PollEntry_scheme) Game \<Rightarrow> ('z PollEntry_scheme) Game \<Rightarrow> jsnum" where
  "maybeSortByScore imp filterState gameA gameB =
     (case playerCountRange filterState of (minRange, maxRange) \<Rightarrow>
        if \<not> js_eq minRange (Fin 1) \<or> \<not> js_eq maxRange PosInf then
          js_sub (calcSortScoreSum gameB minRange maxRange)
                 (calcSortScoreSum gameA minRange maxRange)
        else Fin (real_of_int (localeCompare imp (name gameA) (name gameB))))"

text \<open>
  \<open>Array.prototype.sort(comparefn)\<close>: a stable sort, where \<open>a\<close> goes after \<open>b\<close> when
  \<open>comparefn(a, b) > 0\<close> and a \<open>NaN\<close> from the comparator counts as \<open>0\<close>. For a consistent
  comparator the result is determined, and insertion computes it; for an inconsistent one
  the language leaves the order to the implementation, and the model is the insertion
  order.
\<close>

fun insert_sorted :: "('a \<Rightarrow> 'a \<Rightarrow> jsnum) \<Rightarrow> 'a \<Rightarrow> 'a list \<Rightarrow> 'a list" where
  "insert_sorted comparefn x [] = [x]"
| "insert_sorted comparefn x (y # ys) =
     (if js_gt (comparefn x y) (Fin 0) then y # insert_sorted comparefn x ys
      else x # y # ys)"

definition array_sort :: "('a \<Rightarrow> 'a \<Rightarrow> jsnum) \<Rightarrow> 'a list \<Rightarrow> 'a list" where
  "array_sort comparefn xs = foldr (insert_sorted comparefn) xs []"

text \<open>
  \<open>applyFiltersAndSorts(filterState)(games)\<close>. The argument \<open>None\<close> is \<open>null\<close> or
  \<open>undefined\<close>: the optional chain \<open>games?.map(...)\<close> then skips every later call and
  the result is \<open>undefined\<close>, the \<open>None\<close> of the result.
\<close>

definition applyFiltersAndSorts ::
  "Imports \<Rightarrow> CollectionFilterState \<Rightarrow> SimpleBoardGame list option \<Rightarrow> BoardGame list option" where
  "applyFiltersAndSorts imp filterState games =
     (case games of
        None \<Rightarrow> None
      | Some gs \<Rightarrow>
          Some
            (array_sort (maybeSortByScore imp filterState)
            (map (maybeOutputList filterState ''maybeShowNotRecommended'')
            (filter (maybeShowNotRecommended filterState)
            (map (addIsPlayerCountWithinRange filterState)
            (map (maybeOutputList filterState ''isRatingsWithinRange'')
            (filter (isWithinRange imp filterState)
            (map (maybeOutputList filterState ''isComplexityWithinRange'')
            (filter (complexityService_isWithinRange imp filterState)
            (map (maybeOutputList filterState ''isPlaytimeWithinRange'')
            (filter (playtimeService_isWithinRange imp filterState)
            (map (maybeOutputList filterState ''isMinMaxPlayerRangeWithinRange'')
            (filter (playerCountService_isWithinRange imp filterState)
            (map (maybeShowInvalidPlayerCount filterState)
            (map (maybeOutputList filterState ''maybeShowExpansions'')
            (filter (maybeShowExpansions filterState)
            (map (maybeOutputList filterState ''All Games'') gs)))))))))))))))))"

section \<open>The reducer and the persistence of the state\<close>

text \<open>
  \<open>URLSearchParams\<close> is the ordered list of the key/value pairs of a query string. A
  \<open>URL\<close> is the text before the query and its search parameters. The browser is the
  current location and the entries of the session history, the current one last.
\<close>

type_synonym URLSearchParams = "(string \<times> string) list"

record URL =
  origin_and_path :: string
  searchParams :: URLSearchParams

record Browser =
  location_href :: URL
  history_entries :: "URL list"

text \<open>\<open>history.pushState({}, "", url)\<close> adds an entry and makes it the location.\<close>

definition pushState :: "URL \<Rightarrow> Browser \<Rightarrow> Browser" where
  "pushState url b = b\<lparr>location_href := url, history_entries := history_entries b @ [url]\<rparr>"

text \<open>
  The handlers and the serialisers that \<open>useCollectionFilters\<close> imports from modules that
  are not among the sources are parameters. A serialiser changes the \<open>URLSearchParams\<close>
  it is given in place; here it returns the changed parameters.
\<close>

record ReducerImports =
  complexityService_getReducedState ::
    "CollectionFilterState \<Rightarrow> jsnum \<times> jsnum \<Rightarrow> CollectionFilterState"
  playerCountService_getReducedState ::
    "CollectionFilterState \<Rightarrow> jsnum \<times> jsnum \<Rightarrow> CollectionFilterState"
  playtimeService_getReducedState ::
    "CollectionFilterState \<Rightarrow> jsnum \<times> jsnum \<Rightarrow> CollectionFilterState"
  username_getReducedState :: "CollectionFilterState \<Rightarrow> string \<Rightarrow> CollectionFilterState"
  showRatings_getToggleShowRatings :: "CollectionFilterState \<Rightarrow> CollectionFilterState"
  showRatings_getReducedState ::
    "CollectionFilterState \<Rightarrow> RatingsMode \<Rightarrow> CollectionFilterState"
  booleanQueryParam_getReducedState ::
    "string \<Rightarrow> CollectionFilterState \<Rightarrow> CollectionFilterState"
  username_setQueryParam :: "URLSearchParams \<Rightarrow> CollectionFilterState \<Rightarrow> URLSearchParams"
  playerCountService_setQueryParam ::
    "URLSearchParams \<Rightarrow> CollectionFilterState \<Rightarrow> URLSearchParams"
  playtimeService_setQueryParam ::
    "URLSearchParams \<Rightarrow> CollectionFilterState \<Rightarrow> URLSearchParams"
  complexityService_setQueryParam ::
    "URLSearchParams \<Rightarrow> CollectionFilterState \<Rightarrow> URLSearchParams"
  showRatings_setQueryParam ::
    "URLSearchParams \<Rightarrow> CollectionFilterState \<Rightarrow> URLSearchParams"
  booleanQueryParam_setQueryParam :: "URLSearchParams \<Rightarrow> string \<Rightarrow> bool \<Rightarrow> URLSearchParams"
  slider_utils_maybeSetQueryParam ::
    "URLSearchParams \<Rightarrow> jsnum \<times> jsnum \<Rightarrow> jsnum \<times> jsnum \<Rightarrow> string \<Rightarrow> URLSearchParams"

text \<open>\<open>ratingsService.setQueryParam\<close>\<close>

definition setQueryParam ::
  "ReducerImports \<Rightarrow> URLSearchParams \<Rightarrow> CollectionFilterState \<Rightarrow> URLSearchParams" where
  "setQueryParam imp sp state =
     slider_utils_maybeSetQueryParam imp sp (ratingsRange state) DEFAULT_RANGE
       QUERY_PARAM_RATINGS"

definition SHOW_INVALID_PLAYER_COUNT :: string where
  "SHOW_INVALID_PLAYER_COUNT = ''showInvalid''"

definition SHOW_EXPANSIONS :: string where
  "SHOW_EXPANSIONS = ''showExpansions''"

definition SHOW_NOT_RECOMMENDED :: string where
  "SHOW_NOT_RECOMMENDED = ''showNotRec''"

definition IS_DEBUG :: string where
  "IS_DEBUG = ''debug''"

text \<open>
  \<open>maybeSetQueryParam\<close> of \<open>useCollectionFilters\<close>: it returns at once when
  \<open>!state.username\<close>, which for a string is the empty string; otherwise it copies the
  location into a fresh \<open>URL\<close>, lets every control write its parameter, and pushes the
  result on the history.
\<close>

definition maybeSetQueryParam ::
  "ReducerImports \<Rightarrow> CollectionFilterState \<Rightarrow> Browser \<Rightarrow> Browser" where
  "maybeSetQueryParam imp state b =
     (if username state = [] then b
      else
        (let url = location_href b;
             sp1 = username_setQueryParam imp (searchParams url) state;
             sp2 = playerCountService_setQueryParam imp sp1 state;
             sp3 = playtimeService_setQueryParam imp sp2 state;
             sp4 = complexityService_setQueryParam imp sp3 state;
             sp5 = setQueryParam imp sp4 state;
             sp6 = showRatings_setQueryParam imp sp5 state;
             sp7 = booleanQueryParam_setQueryParam imp sp6 SHOW_EXPANSIONS
                     (showExpansions state);
             sp8 = booleanQueryParam_setQueryParam imp sp7 SHOW_NOT_RECOMMENDED
                     (showNotRecommended state);
             sp9 = booleanQueryParam_setQueryParam imp sp8 SHOW_INVALID_PLAYER_COUNT
                     (showInvalidPlayerCount state);
             sp10 = booleanQueryParam_setQueryParam imp sp9 IS_DEBUG (isDebug state)
         in pushState (url\<lparr>searchParams := sp10\<rparr>) b))"

text \<open>The closed set of actions: one constructor for each key of \<open>actions\<close>.\<close>

datatype Action =
    SET_COMPLEXITY "jsnum \<times> jsnum"
  | SET_PLAYER_COUNT_RANGE "jsnum \<times> jsnum"
  | SET_PLAYTIME_RANGE "jsnum \<times> jsnum"
  | SET_USERNAME string
  | TOGGLE_SHOW_RATINGS
  | SET_SHOW_RATINGS RatingsMode
  | SET_RATINGS "jsnum \<times> jsnum"
  | TOGGLE_SHOW_EXPANSIONS
  | TOGGLE_SHOW_INVALID_PLAYER_COUNT
  | TOGGLE_SHOW_NOT_RECOMMENDED_PLAYER_COUNT

text \<open>\<open>actions[action.type](state, action.payload)\<close>\<close>

fun actions :: "ReducerImports \<Rightarrow> Action \<Rightarrow> CollectionFilterState \<Rightarrow> CollectionFilterState" where
  "actions imp (SET_COMPLEXITY p) state = complexityService_getReducedState imp state p"
| "actions imp (SET_PLAYER_COUNT_RANGE p) state = playerCountService_getReducedState imp state p"
| "actions imp (SET_PLAYTIME_RANGE p) state = playtimeService_getReducedState imp state p"
| "actions imp (SET_USERNAME p) state = username_getReducedState imp state p"
| "actions imp TOGGLE_SHOW_RATINGS state = showRatings_getToggleShowRatings imp state"
| "actions imp (SET_SHOW_RATINGS p) state = showRatings_getReducedState imp state p"
| "actions imp (SET_RATINGS p) state = getReducedState state p"
| "actions imp TOGGLE_SHOW_EXPANSIONS state =
     booleanQueryParam_getReducedState imp ''showExpansions'' state"
| "actions imp TOGGLE_SHOW_INVALID_PLAYER_COUNT state =
     booleanQueryParam_getReducedState imp ''showInvalidPlayerCount'' state"
| "actions imp TOGGLE_SHOW_NOT_RECOMMENDED_PLAYER_COUNT state =
     booleanQueryParam_getReducedState imp ''showNotRecommended'' state"

text \<open>The reducer returns the new state; its effect on the browser is the second part.\<close>

definition reducer ::
  "ReducerImports \<Rightarrow> CollectionFilterState \<Rightarrow> Action \<Rightarrow> Browser \<Rightarrow>
   CollectionFilterState \<times> Browser" where
  "reducer imp state action b =
     (let newState = actions imp action state;
          b' = maybeSetQueryParam imp newState b
      in (newState, b'))"

subsection \<open>The sliders that dispatch\<close>

text \<open>
  A slider reports every value it passes through while the thumb is dragged
  (\<open>onChange\<close>) and the value at which it is released (\<open>onChangeCommitted\<close>).
\<close>

datatype SliderEvent = onChange "jsnum \<times> jsnum" | onChangeCommitted "jsnum \<times> jsnum"

text \<open>
  \<open>PlayerCountSlider\<close> gives the slider an \<open>onChange\<close> handler only, which dispatches
  \<open>SET_PLAYER_COUNT_RANGE\<close>.
\<close>

definition PlayerCountSlider ::
  "ReducerImports \<Rightarrow> CollectionFilterState \<times> Browser \<Rightarrow> SliderEvent \<Rightarrow>
   CollectionFilterState \<times> Browser" where
  "PlayerCountSlider imp sb ev =
     (case ev of
        onChange v \<Rightarrow> reducer imp (fst sb) (SET_PLAYER_COUNT_RANGE v) (snd sb)
      | onChangeCommitted v \<Rightarrow> sb)"

text \<open>
  The \<open>sliderControls\<close> of \<open>useCollectionFilters\<close> give the slider an
  \<open>onChangeCommitted\<close> handler only, which dispatches the control's set action.
\<close>

definition sliderControls ::
  "ReducerImports \<Rightarrow> (jsnum \<times> jsnum \<Rightarrow> Action) \<Rightarrow> CollectionFilterState \<times> Browser \<Rightarrow>
   SliderEvent \<Rightarrow> CollectionFilterState \<times> Browser" where
  "sliderControls imp setAction sb ev =
     (case ev of
        onChange v \<Rightarrow> sb
      | onChangeCommitted v \<Rightarrow> reducer imp (fst sb) (setAction v) (snd sb))"

section \<open>The imported services, as the specification describes them\<close>

text \<open>
  Modelled from the spec: \<open>isBoardGameRangeWithinFilterRange\<close> of \<open>slider-utils\<close>, which
  is not among the sources. The specification calls it interval overlap: the item's
  interval and the filter's range intersect. On the one-point interval of a rating this is
  "the item's single value lies in \<open>[min,max]\<close>".
\<close>

definition spec_isBoardGameRangeWithinFilterRange ::
  "jsnum \<times> jsnum \<Rightarrow> jsnum \<times> jsnum \<Rightarrow> bool" where
  "spec_isBoardGameRangeWithinFilterRange boardgameRange filterRange =
     (js_le (fst boardgameRange) (snd filterRange) \<and>
      js_le (fst filterRange) (snd boardgameRange))"

text \<open>
  Modelled from the spec: the \<open>isWithinRange\<close> of \<open>playerCountService\<close>,
  \<open>playtimeService\<close> and \<open>complexityService\<close>, which are not among the sources. By the
  table of the range criteria they compare, with the helper above, the item's
  \<open>[minPlayers,maxPlayers]\<close> interval, its \<open>[minPlaytime,maxPlaytime]\<close> interval and its
  \<open>averageWeight\<close> with the criterion's own range of the filter state.
\<close>

definition spec_Imports :: "(string \<Rightarrow> string \<Rightarrow> int) \<Rightarrow> Imports" where
  "spec_Imports lc =
     \<lparr>isBoardGameRangeWithinFilterRange = spec_isBoardGameRangeWithinFilterRange,
      playerCountService_isWithinRange =
        (\<lambda>filterState game. spec_isBoardGameRangeWithinFilterRange
           (minPlayers game, maxPlayers game) (playerCountRange filterState)),
      playtimeService_isWithinRange =
        (\<lambda>filterState game. spec_isBoardGameRangeWithinFilterRange
           (minPlaytime game, maxPlaytime game) (playtimeRange filterState)),
      complexityService_isWithinRange =
        (\<lambda>filterState game. spec_isBoardGameRangeWithinFilterRange
           (averageWeight game, averageWeight game) (complexityRange filterState)),
      localeCompare = lc\<rparr>"

section \<open>Properties named by the specification, and concrete inputs\<close>

text \<open>
  The invariant the specification states for the ratings range: \<open>min <= max\<close>, and both
  bounds inside the domain \<open>[1,10]\<close>.
\<close>

definition ratings_invariant :: "jsnum \<times> jsnum \<Rightarrow> bool" where
  "ratings_invariant r =
     (js_le (fst r) (snd r) \<and>
      js_le (Fin 1) (fst r) \<and> js_le (fst r) (Fin 10) \<and>
      js_le (Fin 1) (snd r) \<and> js_le (snd r) (Fin 10))"

text \<open>
  What \<open>Array.prototype.sort\<close> asks of a comparator on strings, for the order it produces
  to be determined: if \<open>a\<close> goes after \<open>b\<close> then \<open>b\<close> does not go after \<open>a\<close>, and
  "does not go after" is transitive.
\<close>

definition consistent_comparator :: "(string \<Rightarrow> string \<Rightarrow> int) \<Rightarrow> bool" where
  "consistent_comparator lc =
     ((\<forall>a b. 0 < lc a b \<longrightarrow> lc b a \<le> 0) \<and>
      (\<forall>a b c. lc a b \<le> 0 \<and> lc b c \<le> 0 \<longrightarrow> lc a c \<le> 0))"

text \<open>A comparison of strings for the examples: character by character.\<close>

definition codepoint_compare :: "string \<Rightarrow> string \<Rightarrow> int" where
  "codepoint_compare a b = (if a < b then - 1 else if a = b then 0 else 1)"

text \<open>The range \<open>r2\<close> contains the range \<open>r1\<close>.\<close>

definition range_contains :: "jsnum \<times> jsnum \<Rightarrow> jsnum \<times> jsnum \<Rightarrow> bool" where
  "range_contains r2 r1 = (js_le (fst r2) (fst r1) \<and> js_le (snd r1) (snd r2))"

text \<open>An annotated game without its annotations: the game the pipeline was given.\<close>

definition unannotated :: "BoardGame \<Rightarrow> SimpleBoardGame" where
  "unannotated game =
     with_recommendedPlayerCount game
       (map (\<lambda>rec. \<lparr>numplayers = numplayers rec, playerCountValue = playerCountValue rec,
                     sortScore = sortScore rec,
                     NotRecommendedPercent = NotRecommendedPercent rec\<rparr>)
          (recommendedPlayerCount game))"

text \<open>A filter state, a browser, poll entries and games for the examples.\<close>

definition example_state :: CollectionFilterState where
  "example_state =
     \<lparr>username = ''bob'', showInvalidPlayerCount = False,
      playerCountRange = (Fin 3, Fin 3), playtimeRange = (Fin 0, PosInf),
      complexityRange = (Fin 1, Fin 5), showExpansions = False,
      showRatings = AVERAGE_RATING, ratingsRange = (Fin 1, Fin 10),
      showNotRecommended = False, isDebug = False\<rparr>"

definition example_browser :: Browser where
  "example_browser =
     \<lparr>location_href = \<lparr>origin_and_path = ''https://example.org/'', searchParams = []\<rparr>,
      history_entries = [\<lparr>origin_and_path = ''https://example.org/'', searchParams = []\<rparr>]\<rparr>"

definition example_entry :: "real \<Rightarrow> jsnum \<Rightarrow> jsnum \<Rightarrow> PollEntry" where
  "example_entry n score percent =
     \<lparr>numplayers = Inl (Fin n), playerCountValue = Fin n, sortScore = score,
      NotRecommendedPercent = percent\<rparr>"

definition example_game :: "string \<Rightarrow> PollEntry list \<Rightarrow> SimpleBoardGame" where
  "example_game nm recs =
     \<lparr>id_field = nm, name = nm, type_field = ''boardgame'', thumbnail = [],
      minPlayers = Fin 1, maxPlayers = Fin 5, minPlaytime = Fin 30, maxPlaytime = Fin 60,
      averageWeight = Fin 2, userRating = Inr ''N/A'', averageRating = Inl (Fin 7),
      recommendedPlayerCount = recs\<rparr>"

text \<open>
  An instance of the reducer's imports for the examples: every handler replaces its own
  field of the state, and the serialisers leave the parameters as they are.
\<close>

definition example_ReducerImports :: ReducerImports where
  "example_ReducerImports =
     \<lparr>complexityService_getReducedState = (\<lambda>state p. state\<lparr>complexityRange := p\<rparr>),
      playerCountService_getReducedState = (\<lambda>state p. state\<lparr>playerCountRange := p\<rparr>),
      playtimeService_getReducedState = (\<lambda>state p. state\<lparr>playtimeRange := p\<rparr>),
      username_getReducedState = (\<lambda>state p. state\<lparr>username := p\<rparr>),
      showRatings_getToggleShowRatings =
        (\<lambda>state. state\<lparr>showRatings :=
           (if showRatings state = NO_RATING then AVERAGE_RATING else NO_RATING)\<rparr>),
      showRatings_getReducedState = (\<lambda>state p. state\<lparr>showRatings := p\<rparr>),
      booleanQueryParam_getReducedState =
        (\<lambda>key state.
           if key = ''showExpansions'' then state\<lparr>showExpansions := \<not> showExpansions state\<rparr>
           else if key = ''showInvalidPlayerCount''
             then state\<lparr>showInvalidPlayerCount := \<not> showInvalidPlayerCount state\<rparr>
           else if key = ''showNotRecommended''
             then state\<lparr>showNotRecommended := \<not> showNotRecommended state\<rparr>
           else state),
      username_setQueryParam = (\<lambda>sp state. sp),
      playerCountService_setQueryParam = (\<lambda>sp state. sp),
      playtimeService_setQueryParam = (\<lambda>sp state. sp),
      complexityService_setQueryParam = (\<lambda>sp state. sp),
      showRatings_setQueryParam = (\<lambda>sp state. sp),
      booleanQueryParam_setQueryParam = (\<lambda>sp key v. sp),
      slider_utils_maybeSetQueryParam = (\<lambda>sp v d key. sp)\<rparr>"

section \<open>Properties of the ratings codec\<close>

lemma split_no_sep: "c \<notin> set b \<Longrightarrow> split b c = [b]"
  by (induction b) auto

lemma split_at_first_sep: "c \<notin> set a \<Longrightarrow> split (a @ c # b) c = a # split b c"
  by (induction a) auto

lemma clamp_ratings_fin: "clamp (Fin x) (Fin 1) (Fin 10) = Fin (max 1 (min 10 x))"
  by (auto simp: clamp_def baseClamp_def js_eq_def Let_def)

lemma clamp_ratings_domain:
  "x \<noteq> NaN \<Longrightarrow> \<exists>r. clamp x (Fin 1) (Fin 10) = Fin r \<and> 1 \<le> r \<and> r \<le> 10"
  by (cases x) (auto simp: clamp_def baseClamp_def js_eq_def Let_def)

lemma bound_domain:
  assumes "1 \<le> d" "d \<le> 10"
  shows "\<exists>r. (if x = NaN then Fin d else clamp x (Fin 1) (Fin 10)) = Fin r \<and> 1 \<le> r \<and> r \<le> 10"
  using assms clamp_ratings_domain [of x] by auto

text \<open>The function on a non-empty string, with the constants and \<open>isNaN\<close> unfolded.\<close>

lemma convert_Some:
  "val \<noteq> [] \<Longrightarrow>
   convertRangeQueryParamToValue (Some val) =
   (let parts = split (if CHR ''-'' \<in> set val then val else val @ ''-'' @ val) (CHR ''-'');
        lo = parseFloat (element_string parts 0);
        hi = parseFloat (element_string parts 1)
    in (if lo = NaN then Fin 1 else clamp lo (Fin 1) (Fin 10),
        if hi = NaN then Fin 10 else clamp hi (Fin 1) (Fin 10)))"
  by (simp add: convertRangeQueryParamToValue_def Let_def includes_str_def isNaN_def
        DEFAULT_RATINGS_MIN_def DEFAULT_RATINGS_MAX_def)

lemma convert_empty:
  "convertRangeQueryParamToValue None = (Fin 1, Fin 10)"
  "convertRangeQueryParamToValue (Some []) = (Fin 1, Fin 10)"
  by (simp_all add: convertRangeQueryParamToValue_def DEFAULT_RANGE_def
        DEFAULT_RATINGS_MIN_def DEFAULT_RATINGS_MAX_def)

lemma convert_domain:
  "\<exists>a b. convertRangeQueryParamToValue v = (Fin a, Fin b) \<and>
         1 \<le> a \<and> a \<le> 10 \<and> 1 \<le> b \<and> b \<le> 10"
proof (cases "v = None \<or> v = Some []")
  case True
  then show ?thesis
    using convert_empty by auto
next
  case False
  then obtain val where v: "v = Some val" and ne: "val \<noteq> []"
    by (cases v) auto
  define parts where
    "parts = split (if CHR ''-'' \<in> set val then val else val @ ''-'' @ val) (CHR ''-'')"
  obtain a where a:
    "(if parseFloat (element_string parts 0) = NaN then Fin 1
      else clamp (parseFloat (element_string parts 0)) (Fin 1) (Fin 10)) = Fin a"
    "1 \<le> a" "a \<le> 10"
    using bound_domain [of 1 "parseFloat (element_string parts 0)"] by auto
  obtain b where b:
    "(if parseFloat (element_string parts 1) = NaN then Fin 10
      else clamp (parseFloat (element_string parts 1)) (Fin 1) (Fin 10)) = Fin b"
    "1 \<le> b" "b \<le> 10"
    using bound_domain [of 10 "parseFloat (element_string parts 1)"] by auto
  have "convertRangeQueryParamToValue v = (Fin a, Fin b)"
    unfolding v convert_Some [OF ne] Let_def parts_def [symmetric] using a(1) b(1) by simp
  with a b show ?thesis by blast
qed

lemma convert_two_parts:
  assumes "CHR ''-'' \<notin> set a" "CHR ''-'' \<notin> set b"
  shows "convertRangeQueryParamToValue (Some (a @ ''-'' @ b)) =
         (if parseFloat a = NaN then Fin 1 else clamp (parseFloat a) (Fin 1) (Fin 10),
          if parseFloat b = NaN then Fin 10 else clamp (parseFloat b) (Fin 1) (Fin 10))"
  using assms
  by (simp add: convert_Some split_at_first_sep split_no_sep element_string_def Let_def)

lemma convert_bare:
  assumes "CHR ''-'' \<notin> set s" "s \<noteq> []"
  shows "convertRangeQueryParamToValue (Some s) =
         (if parseFloat s = NaN then Fin 1 else clamp (parseFloat s) (Fin 1) (Fin 10),
          if parseFloat s = NaN then Fin 10 else clamp (parseFloat s) (Fin 1) (Fin 10))"
  using assms
  by (simp add: convert_Some split_at_first_sep split_no_sep element_string_def Let_def)

lemmas parse_defs =
  parseFloat_def parse_unsigned_def exponent_factor_def is_space_def is_space2_def
  is_space3_def is_digit_def digits_value_def digit_value_def

lemma parseFloat_examples:
  "parseFloat ''7'' = Fin 7" "parseFloat ''9'' = Fin 9" "parseFloat ''foo'' = NaN"
  "parseFloat '''' = NaN" "parseFloat ''8.5'' = Fin (17 / 2)" "parseFloat ''12'' = Fin 12"
  "parseFloat ''0.5'' = Fin (1 / 2)" "parseFloat ''abc'' = NaN"
  by (simp_all add: parse_defs)

text \<open>
  C1. Decoding a persisted ratings value always yields a pair of finite numbers inside
  \<open>[1,10]\<close>, and follows the codec law: \<open>"7-9"\<close> decodes to \<open>[7,9]\<close>; a missing value and
  the unparsable \<open>"foo"\<close> decode to the default \<open>[1,10]\<close>; a bare part \<open>s\<close> (no \<open>-\<close> in
  it) that parses to \<open>n\<close> decodes to \<open>[n,n]\<close> clamped into \<open>[1,10]\<close>, and to the default
  when it does not parse; in \<open>a-b\<close>, a part that does not parse (the empty, missing part
  too) falls back to its own default bound, \<open>1\<close> for the minimum and \<open>10\<close> for the maximum,
  and a part that parses to a number is clamped into \<open>[1,10]\<close> (\<open>Infinity\<close> to \<open>10\<close>).
\<close>

theorem ratings_decode_codec_law:
  "convertRangeQueryParamToValue (Some ''7-9'') = (Fin 7, Fin 9) \<and>
   convertRangeQueryParamToValue (Some ''foo'') = (Fin 1, Fin 10) \<and>
   convertRangeQueryParamToValue None = (Fin 1, Fin 10) \<and>
   (\<exists>lo hi. convertRangeQueryParamToValue v = (Fin lo, Fin hi) \<and>
            1 \<le> lo \<and> lo \<le> 10 \<and> 1 \<le> hi \<and> hi \<le> 10) \<and>
   (s \<noteq> [] \<and> CHR ''-'' \<notin> set s \<and> parseFloat s = Fin n \<longrightarrow>
      convertRangeQueryParamToValue (Some s) =
        (Fin (max 1 (min 10 n)), Fin (max 1 (min 10 n)))) \<and>
   (s \<noteq> [] \<and> CHR ''-'' \<notin> set s \<and> parseFloat s = NaN \<longrightarrow>
      convertRangeQueryParamToValue (Some s) = (Fin 1, Fin 10)) \<and>
   (CHR ''-'' \<notin> set a \<and> CHR ''-'' \<notin> set b \<longrightarrow>
      (parseFloat a = NaN \<longrightarrow>
         fst (convertRangeQueryParamToValue (Some (a @ ''-'' @ b))) = Fin 1) \<and>
      (parseFloat b = NaN \<longrightarrow>
         snd (convertRangeQueryParamToValue (Some (a @ ''-'' @ b))) = Fin 10) \<and>
      (parseFloat a = Fin x \<longrightarrow>
         fst (convertRangeQueryParamToValue (Some (a @ ''-'' @ b))) = Fin (max 1 (min 10 x))) \<and>
      (parseFloat b = Fin y \<longrightarrow>
         snd (convertRangeQueryParamToValue (Some (a @ ''-'' @ b))) = Fin (max 1 (min 10 y))) \<and>
      (parseFloat a = PosInf \<longrightarrow>
         fst (convertRangeQueryParamToValue (Some (a @ ''-'' @ b))) = Fin 10) \<and>
      (parseFloat b = PosInf \<longrightarrow>
         snd (convertRangeQueryParamToValue (Some (a @ ''-'' @ b))) = Fin 10))"
proof -
  have e1: "convertRangeQueryParamToValue (Some ''7-9'') = (Fin 7, Fin 9)"
    using convert_two_parts [of "''7''" "''9''"]
    by (simp add: parseFloat_examples clamp_ratings_fin)
  have e2: "convertRangeQueryParamToValue (Some ''foo'') = (Fin 1, Fin 10)"
    using convert_bare [of "''foo''"] by (simp add: parseFloat_examples)
  have bare: "convertRangeQueryParamToValue (Some s) =
        (Fin (max 1 (min 10 n)), Fin (max 1 (min 10 n)))"
    if "s \<noteq> []" "CHR ''-'' \<notin> set s" "parseFloat s = Fin n"
    using that convert_bare [of s] by (simp add: clamp_ratings_fin)
  have bare_nan: "convertRangeQueryParamToValue (Some s) = (Fin 1, Fin 10)"
    if "s \<noteq> []" "CHR ''-'' \<notin> set s" "parseFloat s = NaN"
    using that convert_bare [of s] by simp
  have parts: "(parseFloat a = NaN \<longrightarrow>
         fst (convertRangeQueryParamToValue (Some (a @ ''-'' @ b))) = Fin 1) \<and>
      (parseFloat b = NaN \<longrightarrow>
         snd (convertRangeQueryParamToValue (Some (a @ ''-'' @ b))) = Fin 10) \<and>
      (parseFloat a = Fin x \<longrightarrow>
         fst (convertRangeQueryParamToValue (Some (a @ ''-'' @ b))) = Fin (max 1 (min 10 x))) \<and>
      (parseFloat b = Fin y \<longrightarrow>
         snd (convertRangeQueryParamToValue (Some (a @ ''-'' @ b))) = Fin (max 1 (min 10 y))) \<and>
      (parseFloat a = PosInf \<longrightarrow>
         fst (convertRangeQueryParamToValue (Some (a @ ''-'' @ b))) = Fin 10) \<and>
      (parseFloat b = PosInf \<longrightarrow>
         snd (convertRangeQueryParamToValue (Some (a @ ''-'' @ b))) = Fin 10)"
    if "CHR ''-'' \<notin> set a" "CHR ''-'' \<notin> set b"
    unfolding convert_two_parts [OF that]
    by (simp add: clamp_ratings_fin clamp_def baseClamp_def js_eq_def)
  from e1 e2 convert_empty(1) convert_domain [of v] bare bare_nan parts
  show ?thesis by blast
qed

theorem ratings_decode_codec_law_witness:
  "convertRangeQueryParamToValue (Some ''8.5'') = (Fin (17 / 2), Fin (17 / 2)) \<and>
   convertRangeQueryParamToValue (Some ''12'') = (Fin 10, Fin 10) \<and>
   convertRangeQueryParamToValue (Some ''abc'') = (Fin 1, Fin 10) \<and>
   convertRangeQueryParamToValue (Some ''-12'') = (Fin 1, Fin 10) \<and>
   convertRangeQueryParamToValue (Some ''0.5-'') = (Fin 1, Fin 10) \<and>
   convertRangeQueryParamToValue (Some ''7-9'') = (Fin 7, Fin 9)"
proof -
  have h1: "''8.5'' \<noteq> [] \<and> CHR ''-'' \<notin> set ''8.5'' \<and> parseFloat ''8.5'' = Fin (17 / 2)"
    by (simp add: parseFloat_examples)
  have h2: "''12'' \<noteq> [] \<and> CHR ''-'' \<notin> set ''12'' \<and> parseFloat ''12'' = Fin 12"
    by (simp add: parseFloat_examples)
  have h3: "''abc'' \<noteq> [] \<and> CHR ''-'' \<notin> set ''abc'' \<and> parseFloat ''abc'' = NaN"
    by (simp add: parseFloat_examples)
  have h4: "CHR ''-'' \<notin> set '''' \<and> CHR ''-'' \<notin> set ''12'' \<and>
            parseFloat '''' = NaN \<and> parseFloat ''12'' = Fin 12"
    by (simp add: parseFloat_examples)
  have h5: "CHR ''-'' \<notin> set ''0.5'' \<and> CHR ''-'' \<notin> set '''' \<and>
            parseFloat ''0.5'' = Fin (1 / 2) \<and> parseFloat '''' = NaN"
    by (simp add: parseFloat_examples)
  have w1: "convertRangeQueryParamToValue (Some ''8.5'') = (Fin (17 / 2), Fin (17 / 2))"
    using h1 ratings_decode_codec_law [of _ "''8.5''" "17 / 2"] by simp
  have w2: "convertRangeQueryParamToValue (Some ''12'') = (Fin 10, Fin 10)"
    using h2 ratings_decode_codec_law [of _ "''12''" 12] by simp
  have w3: "convertRangeQueryParamToValue (Some ''abc'') = (Fin 1, Fin 10)"
    using h3 ratings_decode_codec_law [of _ "''abc''"] by simp
  have w4: "convertRangeQueryParamToValue (Some ''-12'') = (Fin 1, Fin 10)"
    using h4 ratings_decode_codec_law [of _ _ _ "''''" "''12''" _ 12]
    by (simp add: prod_eq_iff)
  have w5: "convertRangeQueryParamToValue (Some ''0.5-'') = (Fin 1, Fin 10)"
    using h5 ratings_decode_codec_law [of _ _ _ "''0.5''" "''''" "1 / 2"]
    by (simp add: prod_eq_iff)
  have w6: "convertRangeQueryParamToValue (Some ''7-9'') = (Fin 7, Fin 9)"
    using ratings_decode_codec_law by blast
  from w1 w2 w3 w4 w5 w6 show ?thesis by blast
qed

section \<open>Properties of the ratings state\<close>

text \<open>
  C8. \<open>ratingsService.getReducedState(state, payload)\<close> returns a state whose
  \<open>ratingsRange\<close> is the payload pair and whose every other field is the field of the
  state it was given.
\<close>

theorem getReducedState_frame:
  "ratingsRange (getReducedState state payload) = payload \<and>
   username (getReducedState state payload) = username state \<and>
   playerCountRange (getReducedState state payload) = playerCountRange state \<and>
   playtimeRange (getReducedState state payload) = playtimeRange state \<and>
   complexityRange (getReducedState state payload) = complexityRange state \<and>
   showRatings (getReducedState state payload) = showRatings state \<and>
   showExpansions (getReducedState state payload) = showExpansions state \<and>
   showInvalidPlayerCount (getReducedState state payload) = showInvalidPlayerCount state \<and>
   showNotRecommended (getReducedState state payload) = showNotRecommended state \<and>
   isDebug (getReducedState state payload) = isDebug state \<and>
   getReducedState state payload = state\<lparr>ratingsRange := payload\<rparr>"
  by (cases payload) (simp add: getReducedState_def)

lemma ratingsRange_getReducedState:
  "ratingsRange (getReducedState state payload) = payload"
  by (cases payload) (simp add: getReducedState_def)

text \<open>
  C2, as the claim states it, fails twice: the persisted string \<open>"9-7"\<close> decodes to
  \<open>[9,7]\<close>, whose minimum is above its maximum, and \<open>getReducedState\<close> stores the payload
  \<open>[20,0]\<close> as it is, outside the domain and out of order.
\<close>

theorem ratings_invariant_counterexample:
  "\<not> ratings_invariant
       (getInitialState (\<lambda>key. if key = ''ratings'' then Some ''9-7'' else None)) \<and>
   getInitialState (\<lambda>key. if key = ''ratings'' then Some ''9-7'' else None) = (Fin 9, Fin 7) \<and>
   \<not> ratings_invariant (ratingsRange (getReducedState example_state (Fin 20, Fin 0))) \<and>
   ratingsRange (getReducedState example_state (Fin 20, Fin 0)) = (Fin 20, Fin 0)"
proof -
  have "convertRangeQueryParamToValue (Some ''9-7'') = (Fin 9, Fin 7)"
    using convert_two_parts [of "''9''" "''7''"]
    by (simp add: parseFloat_examples clamp_ratings_fin)
  then show ?thesis
    by (simp add: getInitialState_def QUERY_PARAM_RATINGS_def ratings_invariant_def
        ratingsRange_getReducedState)
qed

text \<open>
  C2, amended. Whatever the persisted store holds, \<open>getInitialState\<close> returns two finite
  bounds inside \<open>[1,10]\<close> (their order is the order of the persisted parts).
  \<open>getReducedState\<close> does not clamp: the new \<open>ratingsRange\<close> is the payload, so it
  satisfies the invariant whenever the payload does.
\<close>

theorem ratings_invariant_amended:
  "(\<exists>lo hi. getInitialState getQueryParamValue = (Fin lo, Fin hi) \<and>
            1 \<le> lo \<and> lo \<le> 10 \<and> 1 \<le> hi \<and> hi \<le> 10) \<and>
   ratingsRange (getReducedState state payload) = payload \<and>
   (ratings_invariant payload \<longrightarrow>
      ratings_invariant (ratingsRange (getReducedState state payload)))"
  using convert_domain [of "getQueryParamValue QUERY_PARAM_RATINGS"]
  by (simp add: getInitialState_def ratingsRange_getReducedState)

theorem ratings_invariant_amended_witness:
  "ratings_invariant (Fin 7, Fin 9) \<and>
   ratings_invariant (ratingsRange (getReducedState example_state (Fin 7, Fin 9)))"
proof -
  have h: "ratings_invariant (Fin 7, Fin 9)"
    by (simp add: ratings_invariant_def)
  with ratings_invariant_amended [of _ example_state "(Fin 7, Fin 9)"]
  show ?thesis by blast
qed

section \<open>Properties of the pipeline stages\<close>

text \<open>
  C10. When the collection is \<open>null\<close> or \<open>undefined\<close>, \<open>applyFiltersAndSorts\<close> returns
  \<open>undefined\<close> (and raises nothing: the model has no error value because no call of the
  chain is reached); for the empty array it returns the empty array.
\<close>

theorem applyFiltersAndSorts_absent_input:
  "applyFiltersAndSorts imp filterState None = None \<and>
   applyFiltersAndSorts imp filterState (Some []) = Some []"
  by (simp add: applyFiltersAndSorts_def array_sort_def)



text \<open>
  C6. With the helper of \<open>slider-utils\<close> as the specification describes it,
  \<open>ratingsService.isWithinRange(state)(game)\<close> holds exactly when the selected rating
  lies in the inclusive \<open>ratingsRange\<close>. The selected rating is \<open>userRating\<close> under
  \<open>USER_RATING\<close> and \<open>averageRating\<close> otherwise, and a value that is not of type number
  counts as \<open>1\<close>.
\<close>

theorem isWithinRange_ratings:
  "isWithinRange (spec_Imports lc) filterState game =
     (js_le (fst (ratingsRange filterState))
        (case (if showRatings filterState = USER_RATING then userRating game
               else averageRating game) of
           Inl n \<Rightarrow> n | Inr other \<Rightarrow> Fin 1) \<and>
      js_le
        (case (if showRatings filterState = USER_RATING then userRating game
               else averageRating game) of
           Inl n \<Rightarrow> n | Inr other \<Rightarrow> Fin 1)
        (snd (ratingsRange filterState)))"
  by (auto simp: isWithinRange_def spec_Imports_def spec_isBoardGameRangeWithinFilterRange_def
      DEFAULT_RATINGS_MIN_def Let_def split: sum.splits)

section \<open>Properties of the reducer\<close>

lemma maybeSetQueryParam_pushes:
  "username state \<noteq> [] \<Longrightarrow>
   length (history_entries (maybeSetQueryParam imp state b)) = Suc (length (history_entries b))"
  by (simp add: maybeSetQueryParam_def Let_def pushState_def)

text \<open>
  C7. For a state whose username is the empty string \<open>maybeSetQueryParam\<close> leaves the
  browser as it is: neither the location with its query parameters nor the history
  changes, and nothing is raised. The reducer returns the state the action's handler
  produced, and when that state has the empty username the browser is unchanged.
\<close>

theorem sync_gated_on_username:
  "(username state = [] \<longrightarrow> maybeSetQueryParam imp state b = b) \<and>
   fst (reducer imp state action b) = actions imp action state \<and>
   (username (actions imp action state) = [] \<longrightarrow> snd (reducer imp state action b) = b)"
  by (simp add: maybeSetQueryParam_def reducer_def Let_def)

theorem sync_gated_on_username_witness:
  "maybeSetQueryParam example_ReducerImports (example_state\<lparr>username := []\<rparr>) example_browser
     = example_browser \<and>
   reducer example_ReducerImports (example_state\<lparr>username := []\<rparr>)
     (SET_RATINGS (Fin 7, Fin 9)) example_browser
     = (example_state\<lparr>username := [], ratingsRange := (Fin 7, Fin 9)\<rparr>, example_browser)"
proof -
  have h1: "username (example_state\<lparr>username := []\<rparr>) = []"
    by simp
  have h2: "username (actions example_ReducerImports (SET_RATINGS (Fin 7, Fin 9))
              (example_state\<lparr>username := []\<rparr>)) = []"
    by (simp add: getReducedState_def)
  have a: "actions example_ReducerImports (SET_RATINGS (Fin 7, Fin 9))
              (example_state\<lparr>username := []\<rparr>)
           = example_state\<lparr>username := [], ratingsRange := (Fin 7, Fin 9)\<rparr>"
    by (simp add: getReducedState_def)
  from h1 h2 a
    sync_gated_on_username [of "example_state\<lparr>username := []\<rparr>" example_ReducerImports
      example_browser "SET_RATINGS (Fin 7, Fin 9)"]
  show ?thesis by (simp add: prod_eq_iff)
qed

text \<open>
  C9 does not hold of \<open>PlayerCountSlider\<close>. Its \<open>onChange\<close> handler dispatches on every
  value the thumb passes through, and with a username every dispatch pushes an entry on
  the history: a drag through \<open>n\<close> values adds \<open>n\<close> entries before it is committed. The
  sliders built by \<open>sliderControls\<close> dispatch on \<open>onChangeCommitted\<close> only, and the same
  drag adds one entry.
\<close>

theorem PlayerCountSlider_history_per_onChange:
  assumes "username state \<noteq> []"
    and "\<forall>s v. username (playerCountService_getReducedState imp s v) = username s"
  shows "length (history_entries (snd (foldl (PlayerCountSlider imp) (state, b) (map onChange vs))))
         = length (history_entries b) + length vs"
  using assms(1)
proof (induction vs arbitrary: state b)
  case Nil
  then show ?case by simp
next
  case (Cons v vs)
  let ?s = "playerCountService_getReducedState imp state v"
  have u: "username ?s \<noteq> []"
    using Cons.prems assms(2) [rule_format, of state v] by simp
  have step: "PlayerCountSlider imp (state, b) (onChange v) = (?s, maybeSetQueryParam imp ?s b)"
    by (simp add: PlayerCountSlider_def reducer_def Let_def)
  show ?case
    using Cons.IH [OF u, of "maybeSetQueryParam imp ?s b"] maybeSetQueryParam_pushes [OF u, of imp b]
    by (simp add: step)
qed

theorem PlayerCountSlider_history_per_onChange_witness:
  "length (history_entries (snd (foldl (PlayerCountSlider example_ReducerImports)
      (example_state, example_browser)
      (map onChange [(Fin 1, Fin 2), (Fin 1, Fin 3), (Fin 1, Fin 4)])))) = 4 \<and>
   length (history_entries example_browser) = 1 \<and>
   length (history_entries (snd (foldl
      (sliderControls example_ReducerImports SET_PLAYER_COUNT_RANGE)
      (example_state, example_browser)
      [onChange (Fin 1, Fin 2), onChange (Fin 1, Fin 3), onChange (Fin 1, Fin 4),
       onChangeCommitted (Fin 1, Fin 4)]))) = 2"
proof -
  have h1: "username example_state \<noteq> []"
    by (simp add: example_state_def)
  have h2: "\<forall>s v. username (playerCountService_getReducedState example_ReducerImports s v)
              = username s"
    by (simp add: example_ReducerImports_def)
  have b: "length (history_entries example_browser) = 1"
    by (simp add: example_browser_def)
  have w1: "length (history_entries (snd (foldl (PlayerCountSlider example_ReducerImports)
      (example_state, example_browser)
      (map onChange [(Fin 1, Fin 2), (Fin 1, Fin 3), (Fin 1, Fin 4)])))) = 4"
    using PlayerCountSlider_history_per_onChange [OF h1 h2,
        of example_browser "[(Fin 1, Fin 2), (Fin 1, Fin 3), (Fin 1, Fin 4)]"] b
    by simp
  have w2: "length (history_entries (snd (foldl
      (sliderControls example_ReducerImports SET_PLAYER_COUNT_RANGE)
      (example_state, example_browser)
      [onChange (Fin 1, Fin 2), onChange (Fin 1, Fin 3), onChange (Fin 1, Fin 4),
       onChangeCommitted (Fin 1, Fin 4)]))) = 2"
    by (simp add: sliderControls_def reducer_def Let_def maybeSetQueryParam_def pushState_def
        example_ReducerImports_def example_state_def example_browser_def)
  from w1 b w2 show ?thesis by blast
qed

section \<open>Sorting with a comparator\<close>

lemma js_le_trans: "js_le a b \<Longrightarrow> js_le b c \<Longrightarrow> js_le a c"
  by (cases a; cases b; cases c) auto

lemma js_sub_positive: "x \<noteq> NaN \<Longrightarrow> y \<noteq> NaN \<Longrightarrow> js_gt (js_sub y x) (Fin 0) = js_lt x y"
  by (cases x; cases y) (auto simp: js_sub_def)

lemma js_not_lt: "x \<noteq> NaN \<Longrightarrow> y \<noteq> NaN \<Longrightarrow> (\<not> js_lt x y) = js_le y x"
  by (cases x; cases y) auto

lemma js_lt_le: "js_lt x y \<Longrightarrow> js_le x y"
  by (cases x; cases y) auto

lemma set_insert_sorted: "set (insert_sorted cmp x ys) = insert x (set ys)"
  by (induction ys) auto

lemma set_array_sort: "set (array_sort cmp xs) = set xs"
  unfolding array_sort_def by (induction xs) (auto simp: set_insert_sorted)

lemma sorted_wrt_insert_sorted:
  assumes after: "\<And>a b. a \<in> insert x (set ys) \<Longrightarrow> b \<in> insert x (set ys) \<Longrightarrow>
                    js_gt (cmp a b) (Fin 0) \<Longrightarrow> R b a"
    and not_after: "\<And>a b. a \<in> insert x (set ys) \<Longrightarrow> b \<in> insert x (set ys) \<Longrightarrow>
                    \<not> js_gt (cmp a b) (Fin 0) \<Longrightarrow> R a b"
    and trans: "\<And>a b c. a \<in> insert x (set ys) \<Longrightarrow> b \<in> insert x (set ys) \<Longrightarrow>
                    c \<in> insert x (set ys) \<Longrightarrow> R a b \<Longrightarrow> R b c \<Longrightarrow> R a c"
    and sorted: "sorted_wrt R ys"
  shows "sorted_wrt R (insert_sorted cmp x ys)"
  using assms
proof (induction ys)
  case Nil
  show ?case by simp
next
  case (Cons y ys)
  have sub: "insert x (set ys) \<subseteq> insert x (set (y # ys))"
    by auto
  have tail: "sorted_wrt R ys" and head: "\<forall>z \<in> set ys. R y z"
    using Cons.prems(4) by simp_all
  show ?case
  proof (cases "js_gt (cmp x y) (Fin 0)")
    case True
    have "sorted_wrt R (insert_sorted cmp x ys)"
    proof (rule Cons.IH)
      show "R b a" if "a \<in> insert x (set ys)" "b \<in> insert x (set ys)"
        "js_gt (cmp a b) (Fin 0)" for a b
        using that sub Cons.prems(1) [of a b] by blast
      show "R a b" if "a \<in> insert x (set ys)" "b \<in> insert x (set ys)"
        "\<not> js_gt (cmp a b) (Fin 0)" for a b
        using that sub Cons.prems(2) [of a b] by blast
      show "R a c" if "a \<in> insert x (set ys)" "b \<in> insert x (set ys)"
        "c \<in> insert x (set ys)" "R a b" "R b c" for a b c
        using that sub Cons.prems(3) [of a b c] by blast
      show "sorted_wrt R ys" by (rule tail)
    qed
    moreover have "R y x"
      using Cons.prems(1) [of x y] True by simp
    ultimately show ?thesis
      using True head by (simp add: set_insert_sorted)
  next
    case False
    have xy: "R x y"
      using Cons.prems(2) [of x y] False by simp
    have "R x z" if "z \<in> set ys" for z
    proof -
      have "R y z" using head that by simp
      with xy show ?thesis
        using Cons.prems(3) [of x y z] that by simp
    qed
    with xy False head tail show ?thesis by simp
  qed
qed

lemma sorted_wrt_array_sort:
  assumes after: "\<And>a b. a \<in> set xs \<Longrightarrow> b \<in> set xs \<Longrightarrow> js_gt (cmp a b) (Fin 0) \<Longrightarrow> R b a"
    and not_after: "\<And>a b. a \<in> set xs \<Longrightarrow> b \<in> set xs \<Longrightarrow> \<not> js_gt (cmp a b) (Fin 0) \<Longrightarrow> R a b"
    and trans: "\<And>a b c. a \<in> set xs \<Longrightarrow> b \<in> set xs \<Longrightarrow> c \<in> set xs \<Longrightarrow>
                    R a b \<Longrightarrow> R b c \<Longrightarrow> R a c"
  shows "sorted_wrt R (array_sort cmp xs)"
  using assms
proof (induction xs)
  case Nil
  show ?case by (simp add: array_sort_def)
next
  case (Cons x xs)
  have ih: "sorted_wrt R (array_sort cmp xs)"
  proof (rule Cons.IH)
    show "R b a" if "a \<in> set xs" "b \<in> set xs" "js_gt (cmp a b) (Fin 0)" for a b
      using that Cons.prems(1) [of a b] by simp
    show "R a b" if "a \<in> set xs" "b \<in> set xs" "\<not> js_gt (cmp a b) (Fin 0)" for a b
      using that Cons.prems(2) [of a b] by simp
    show "R a c" if "a \<in> set xs" "b \<in> set xs" "c \<in> set xs" "R a b" "R b c" for a b c
      using that Cons.prems(3) [of a b c] by simp
  qed
  have "sorted_wrt R (insert_sorted cmp x (array_sort cmp xs))"
  proof (rule sorted_wrt_insert_sorted)
    show "R b a" if "a \<in> insert x (set (array_sort cmp xs))"
      "b \<in> insert x (set (array_sort cmp xs))" "js_gt (cmp a b) (Fin 0)" for a b
      using that Cons.prems(1) [of a b] by (simp add: set_array_sort)
    show "R a b" if "a \<in> insert x (set (array_sort cmp xs))"
      "b \<in> insert x (set (array_sort cmp xs))" "\<not> js_gt (cmp a b) (Fin 0)" for a b
      using that Cons.prems(2) [of a b] by (simp add: set_array_sort)
    show "R a c" if "a \<in> insert x (set (array_sort cmp xs))"
      "b \<in> insert x (set (array_sort cmp xs))"
      "c \<in> insert x (set (array_sort cmp xs))" "R a b" "R b c" for a b c
      using that Cons.prems(3) [of a b c] by (simp add: set_array_sort)
    show "sorted_wrt R (array_sort cmp xs)" by (rule ih)
  qed
  then show ?case by (simp add: array_sort_def)
qed


lemma map_maybeOutputList: "map (maybeOutputList filterState groupLabel) xs = xs"
  by (induction xs) (simp_all add: maybeOutputList_def)

text \<open>The pipeline on a collection that is present, without the taps.\<close>

lemma applyFiltersAndSorts_Some:
  "applyFiltersAndSorts imp filterState (Some gs) =
   Some (array_sort (maybeSortByScore imp filterState)
     (filter (maybeShowNotRecommended filterState)
       (map (addIsPlayerCountWithinRange filterState)
         (filter (isWithinRange imp filterState)
           (filter (complexityService_isWithinRange imp filterState)
             (filter (playtimeService_isWithinRange imp filterState)
               (filter (playerCountService_isWithinRange imp filterState)
                 (map (maybeShowInvalidPlayerCount filterState)
                   (filter (maybeShowExpansions filterState) gs)))))))))"
  unfolding applyFiltersAndSorts_def map_maybeOutputList option.case by (rule refl)

lemma applyFiltersAndSorts_sorted_form:
  assumes "applyFiltersAndSorts imp filterState (Some games) = Some out"
  shows "\<exists>xs. out = array_sort (maybeSortByScore imp filterState) xs"
  using assms unfolding applyFiltersAndSorts_Some option.inject by blast

lemma maybeSortByScore_by_score:
  "playerCountRange filterState \<noteq> (Fin 1, PosInf) \<Longrightarrow>
   maybeSortByScore imp filterState a b =
     js_sub (calcSortScoreSum b (fst (playerCountRange filterState))
                               (snd (playerCountRange filterState)))
            (calcSortScoreSum a (fst (playerCountRange filterState))
                               (snd (playerCountRange filterState)))"
  by (cases "playerCountRange filterState") (auto simp: maybeSortByScore_def js_eq_def)

lemma maybeSortByScore_by_name:
  "playerCountRange filterState = (Fin 1, PosInf) \<Longrightarrow>
   maybeSortByScore imp filterState a b =
     Fin (real_of_int (localeCompare imp (name a) (name b)))"
  by (simp add: maybeSortByScore_def js_eq_def)

lemma sorted_by_score:
  assumes range: "playerCountRange filterState \<noteq> (Fin 1, PosInf)"
    and sums: "\<forall>g \<in> set xs. calcSortScoreSum g (fst (playerCountRange filterState))
                 (snd (playerCountRange filterState)) \<noteq> NaN"
  shows "sorted_wrt
           (\<lambda>a b. js_ge (calcSortScoreSum a (fst (playerCountRange filterState))
                                           (snd (playerCountRange filterState)))
                         (calcSortScoreSum b (fst (playerCountRange filterState))
                                           (snd (playerCountRange filterState))))
           (array_sort (maybeSortByScore imp filterState) xs)"
proof (rule sorted_wrt_array_sort)
  let ?sum = "\<lambda>g. calcSortScoreSum g (fst (playerCountRange filterState))
                 (snd (playerCountRange filterState))"
  fix a b
  assume a: "a \<in> set xs" and b: "b \<in> set xs"
  have nn: "?sum a \<noteq> NaN" "?sum b \<noteq> NaN"
    using a b sums by auto
  have gt: "js_gt (maybeSortByScore imp filterState a b) (Fin 0) = js_lt (?sum a) (?sum b)"
    unfolding maybeSortByScore_by_score [OF range] using nn by (rule js_sub_positive)
  show "js_ge (?sum b) (?sum a)" if "js_gt (maybeSortByScore imp filterState a b) (Fin 0)"
    using that unfolding gt by (rule js_lt_le)
  show "js_ge (?sum a) (?sum b)" if "\<not> js_gt (maybeSortByScore imp filterState a b) (Fin 0)"
    using that unfolding gt js_not_lt [OF nn] .
next
  fix a b c :: "('a PollEntry_scheme) Game"
  let ?sum = "\<lambda>g. calcSortScoreSum g (fst (playerCountRange filterState))
                 (snd (playerCountRange filterState))"
  assume "js_ge (?sum a) (?sum b)" "js_ge (?sum b) (?sum c)"
  then show "js_ge (?sum a) (?sum c)"
    by (rule js_le_trans [rotated])
qed

lemma sorted_by_name:
  assumes range: "playerCountRange filterState = (Fin 1, PosInf)"
    and lc: "consistent_comparator (localeCompare imp)"
  shows "sorted_wrt (\<lambda>a b. localeCompare imp (name a) (name b) \<le> 0)
           (array_sort (maybeSortByScore imp filterState) xs)"
proof (rule sorted_wrt_array_sort)
  fix a b :: "('a PollEntry_scheme) Game"
  have gt: "js_gt (maybeSortByScore imp filterState a b) (Fin 0)
            = (0 < localeCompare imp (name a) (name b))"
    unfolding maybeSortByScore_by_name [OF range] by simp
  show "localeCompare imp (name b) (name a) \<le> 0"
    if "js_gt (maybeSortByScore imp filterState a b) (Fin 0)"
    using that lc unfolding gt consistent_comparator_def by blast
  show "localeCompare imp (name a) (name b) \<le> 0"
    if "\<not> js_gt (maybeSortByScore imp filterState a b) (Fin 0)"
    using that gt by simp
next
  fix a b c :: "('a PollEntry_scheme) Game"
  assume "localeCompare imp (name a) (name b) \<le> 0" "localeCompare imp (name b) (name c) \<le> 0"
  then show "localeCompare imp (name a) (name c) \<le> 0"
    using lc unfolding consistent_comparator_def by blast
qed

lemma consistent_codepoint_compare: "consistent_comparator codepoint_compare"
  unfolding consistent_comparator_def codepoint_compare_def
  by (auto split: if_splits)

lemmas pipeline_defs =
  applyFiltersAndSorts_def maybeOutputList_def maybeShowExpansions_def
  maybeShowInvalidPlayerCount_def removeRecsLessThan_def removeRecsMoreThan_def
  addIsPlayerCountWithinRange_def with_recommendedPlayerCount_def annotate_def
  maybeShowNotRecommended_def isWithinRange_def isNaN_def array_sort_def
  maybeSortByScore_def calcSortScoreSum_def js_eq_def js_sub_def

lemmas example_defs =
  example_state_def example_game_def example_entry_def spec_Imports_def
  spec_isBoardGameRangeWithinFilterRange_def DEFAULT_RATINGS_MIN_def codepoint_compare_def


section \<open>Monotonicity of the filters\<close>

lemma unannotated_addIsPlayerCountWithinRange:
  "unannotated (addIsPlayerCountWithinRange filterState game) = game"
proof -
  have "map ((\<lambda>rec. \<lparr>numplayers = numplayers rec, playerCountValue = playerCountValue rec,
                     sortScore = sortScore rec,
                     NotRecommendedPercent = NotRecommendedPercent rec\<rparr>) \<circ> (\<lambda>rec. annotate rec (f rec))) recs = recs" for f and recs :: "PollEntry list"
    by (induction recs) (simp_all add: annotate_def)
  then show ?thesis
    by (cases "playerCountRange filterState")
       (simp add: unannotated_def addIsPlayerCountWithinRange_def with_recommendedPlayerCount_def)
qed

lemma unannotated_output:
  assumes "applyFiltersAndSorts imp filterState (Some gs) = Some out"
  shows "unannotated ` set out =
         {g \<in> maybeShowInvalidPlayerCount filterState `
                {g \<in> set gs. maybeShowExpansions filterState g}.
            playerCountService_isWithinRange imp filterState g \<and>
            playtimeService_isWithinRange imp filterState g \<and>
            complexityService_isWithinRange imp filterState g \<and>
            isWithinRange imp filterState g \<and>
            maybeShowNotRecommended filterState (addIsPlayerCountWithinRange filterState g)}"
proof -
  define xs where "xs = filter (isWithinRange imp filterState)
           (filter (complexityService_isWithinRange imp filterState)
             (filter (playtimeService_isWithinRange imp filterState)
               (filter (playerCountService_isWithinRange imp filterState)
                 (map (maybeShowInvalidPlayerCount filterState)
                   (filter (maybeShowExpansions filterState) gs)))))"
  have out: "out = array_sort (maybeSortByScore imp filterState)
     (filter (maybeShowNotRecommended filterState)
       (map (addIsPlayerCountWithinRange filterState) xs))"
    using assms unfolding applyFiltersAndSorts_Some option.inject xs_def by (rule sym)
  have "set out = {a \<in> addIsPlayerCountWithinRange filterState ` set xs.
                     maybeShowNotRecommended filterState a}"
    unfolding out set_array_sort by simp
  then have "unannotated ` set out =
      {g \<in> set xs. maybeShowNotRecommended filterState (addIsPlayerCountWithinRange filterState g)}"
    by (force simp: unannotated_addIsPlayerCountWithinRange)
  also have "set xs = {g \<in> maybeShowInvalidPlayerCount filterState `
                {g \<in> set gs. maybeShowExpansions filterState g}.
            playerCountService_isWithinRange imp filterState g \<and>
            playtimeService_isWithinRange imp filterState g \<and>
            complexityService_isWithinRange imp filterState g \<and>
            isWithinRange imp filterState g}"
    unfolding xs_def set_filter set_map by blast
  finally show ?thesis by blast
qed



lemma spec_overlap_mono:
  assumes "r2 = r1 \<or> range_contains r2 r1"
    and "spec_isBoardGameRangeWithinFilterRange b r1"
  shows "spec_isBoardGameRangeWithinFilterRange b r2"
  using assms unfolding spec_isBoardGameRangeWithinFilterRange_def range_contains_def
  by (blast intro: js_le_trans)

lemma maybeShowNotRecommended_annotated:
  "maybeShowNotRecommended filterState (addIsPlayerCountWithinRange filterState game) =
     (showNotRecommended filterState \<or> showInvalidPlayerCount filterState \<or>
      (\<exists>rec \<in> set (recommendedPlayerCount game).
          js_le (fst (playerCountRange filterState)) (playerCountValue rec) \<and>
          js_le (playerCountValue rec) (snd (playerCountRange filterState)) \<and>
          (js_le (NotRecommendedPercent rec) (Fin 50) \<or> NotRecommendedPercent rec = NaN)))"
  by (cases "playerCountRange filterState")
     (auto simp: maybeShowNotRecommended_def addIsPlayerCountWithinRange_def
        with_recommendedPlayerCount_def annotate_def isNaN_def filter_empty_conv)

lemma maybeShowNotRecommended_mono:
  assumes "showNotRecommended s2 = showNotRecommended s1"
    and "showInvalidPlayerCount s2 = showInvalidPlayerCount s1"
    and "playerCountRange s2 = playerCountRange s1 \<or>
         range_contains (playerCountRange s2) (playerCountRange s1)"
    and "maybeShowNotRecommended s1 (addIsPlayerCountWithinRange s1 game)"
  shows "maybeShowNotRecommended s2 (addIsPlayerCountWithinRange s2 game)"
proof -
  have in_range: "js_le (fst (playerCountRange s2)) v \<and> js_le v (snd (playerCountRange s2))"
    if "js_le (fst (playerCountRange s1)) v" "js_le v (snd (playerCountRange s1))" for v
    using that assms(3) unfolding range_contains_def by (auto intro: js_le_trans)
  show ?thesis
    using assms(1,2,4) in_range unfolding maybeShowNotRecommended_annotated by metis
qed

lemma stages_before_filters:
  assumes "showExpansions s2 = showExpansions s1"
    and "showInvalidPlayerCount s2 = showInvalidPlayerCount s1"
  shows "maybeShowInvalidPlayerCount s2 ` {g \<in> set gs. maybeShowExpansions s2 g} =
         maybeShowInvalidPlayerCount s1 ` {g \<in> set gs. maybeShowExpansions s1 g}"
proof -
  have "maybeShowInvalidPlayerCount s2 = maybeShowInvalidPlayerCount s1"
    using assms(2) by (intro ext) (simp add: maybeShowInvalidPlayerCount_def)
  moreover have "maybeShowExpansions s2 g = maybeShowExpansions s1 g" for g :: SimpleBoardGame
    using assms(1) by (simp add: maybeShowExpansions_def)
  ultimately show ?thesis by simp
qed

text \<open>Widening any of the four ranges, the other fields fixed, keeps every item.\<close>

lemma widen_keeps_items:
  assumes narrow: "applyFiltersAndSorts (spec_Imports lc) s1 (Some games) = Some narrow"
    and wide: "applyFiltersAndSorts (spec_Imports lc) s2 (Some games) = Some wide"
    and flags: "showExpansions s2 = showExpansions s1"
      "showInvalidPlayerCount s2 = showInvalidPlayerCount s1"
      "showNotRecommended s2 = showNotRecommended s1"
      "showRatings s2 = showRatings s1"
    and pc: "playerCountRange s2 = playerCountRange s1 \<or>
             range_contains (playerCountRange s2) (playerCountRange s1)"
    and pt: "playtimeRange s2 = playtimeRange s1 \<or>
             range_contains (playtimeRange s2) (playtimeRange s1)"
    and cx: "complexityRange s2 = complexityRange s1 \<or>
             range_contains (complexityRange s2) (complexityRange s1)"
    and rt: "ratingsRange s2 = ratingsRange s1 \<or>
             range_contains (ratingsRange s2) (ratingsRange s1)"
  shows "unannotated ` set narrow \<subseteq> unannotated ` set wide"
proof
  fix g
  assume "g \<in> unannotated ` set narrow"
  then have g: "g \<in> maybeShowInvalidPlayerCount s1 ` {g \<in> set games. maybeShowExpansions s1 g}"
    and g_pc: "playerCountService_isWithinRange (spec_Imports lc) s1 g"
    and g_pt: "playtimeService_isWithinRange (spec_Imports lc) s1 g"
    and g_cx: "complexityService_isWithinRange (spec_Imports lc) s1 g"
    and g_rt: "isWithinRange (spec_Imports lc) s1 g"
    and g_nr: "maybeShowNotRecommended s1 (addIsPlayerCountWithinRange s1 g)"
    unfolding unannotated_output [OF narrow] by simp_all
  have "g \<in> maybeShowInvalidPlayerCount s2 ` {g \<in> set games. maybeShowExpansions s2 g}"
    using g unfolding stages_before_filters [OF flags(1,2)] .
  moreover have "playerCountService_isWithinRange (spec_Imports lc) s2 g"
    using g_pc spec_overlap_mono [OF pc] by (simp add: spec_Imports_def)
  moreover have "playtimeService_isWithinRange (spec_Imports lc) s2 g"
    using g_pt spec_overlap_mono [OF pt] by (simp add: spec_Imports_def)
  moreover have "complexityService_isWithinRange (spec_Imports lc) s2 g"
    using g_cx spec_overlap_mono [OF cx] by (simp add: spec_Imports_def)
  moreover have "isWithinRange (spec_Imports lc) s2 g"
    using g_rt spec_overlap_mono [OF rt] flags(4)
    by (simp add: isWithinRange_def spec_Imports_def Let_def)
  moreover have "maybeShowNotRecommended s2 (addIsPlayerCountWithinRange s2 g)"
    using maybeShowNotRecommended_mono [OF flags(3) flags(2) pc g_nr] .
  ultimately show "g \<in> unannotated ` set wide"
    unfolding unannotated_output [OF wide] by simp
qed

text \<open>
  C5. With the three imported range services as the specification describes them: let two
  filter states differ only in the range of one criterion (player count, playtime,
  complexity or ratings), the range of the second containing the range of the first. Then
  every item of the result under the narrower range is an item of the result under the
  wider range, the same game up to its annotations and its position; read the other way,
  narrowing a range adds no item.
\<close>

theorem filter_monotonicity:
  assumes narrow: "applyFiltersAndSorts (spec_Imports lc) s1 (Some games) = Some narrow"
    and wide: "applyFiltersAndSorts (spec_Imports lc) s2 (Some games) = Some wide"
    and contains: "range_contains r2 r1"
    and differ:
      "(s1 = s\<lparr>playerCountRange := r1\<rparr> \<and> s2 = s\<lparr>playerCountRange := r2\<rparr>) \<or>
       (s1 = s\<lparr>playtimeRange := r1\<rparr> \<and> s2 = s\<lparr>playtimeRange := r2\<rparr>) \<or>
       (s1 = s\<lparr>complexityRange := r1\<rparr> \<and> s2 = s\<lparr>complexityRange := r2\<rparr>) \<or>
       (s1 = s\<lparr>ratingsRange := r1\<rparr> \<and> s2 = s\<lparr>ratingsRange := r2\<rparr>)"
  shows "unannotated ` set narrow \<subseteq> unannotated ` set wide"
  using differ
proof (elim disjE conjE)
  assume "s1 = s\<lparr>playerCountRange := r1\<rparr>" "s2 = s\<lparr>playerCountRange := r2\<rparr>"
  with contains show ?thesis
    by (intro widen_keeps_items [OF narrow wide]) simp_all
next
  assume "s1 = s\<lparr>playtimeRange := r1\<rparr>" "s2 = s\<lparr>playtimeRange := r2\<rparr>"
  with contains show ?thesis
    by (intro widen_keeps_items [OF narrow wide]) simp_all
next
  assume "s1 = s\<lparr>complexityRange := r1\<rparr>" "s2 = s\<lparr>complexityRange := r2\<rparr>"
  with contains show ?thesis
    by (intro widen_keeps_items [OF narrow wide]) simp_all
next
  assume "s1 = s\<lparr>ratingsRange := r1\<rparr>" "s2 = s\<lparr>ratingsRange := r2\<rparr>"
  with contains show ?thesis
    by (intro widen_keeps_items [OF narrow wide]) simp_all
qed


theorem filter_monotonicity_witness:
  "unannotated ` set (the (applyFiltersAndSorts (spec_Imports codepoint_compare)
       (example_state\<lparr>playerCountRange := (Fin 3, Fin 3)\<rparr>)
       (Some [example_game ''Azul'' [example_entry 3 (Fin 1) (Fin 10)],
              example_game ''Brass'' [example_entry 3 (Fin 5) (Fin 80),
                                      example_entry 4 (Fin 9) (Fin 20)]])))
   \<subseteq> unannotated ` set (the (applyFiltersAndSorts (spec_Imports codepoint_compare)
       (example_state\<lparr>playerCountRange := (Fin 2, Fin 4)\<rparr>)
       (Some [example_game ''Azul'' [example_entry 3 (Fin 1) (Fin 10)],
              example_game ''Brass'' [example_entry 3 (Fin 5) (Fin 80),
                                      example_entry 4 (Fin 9) (Fin 20)]]))) \<and>
   map name (the (applyFiltersAndSorts (spec_Imports codepoint_compare)
       (example_state\<lparr>playerCountRange := (Fin 3, Fin 3)\<rparr>)
       (Some [example_game ''Azul'' [example_entry 3 (Fin 1) (Fin 10)],
              example_game ''Brass'' [example_entry 3 (Fin 5) (Fin 80),
                                      example_entry 4 (Fin 9) (Fin 20)]])))
     = [''Azul''] \<and>
   map name (the (applyFiltersAndSorts (spec_Imports codepoint_compare)
       (example_state\<lparr>playerCountRange := (Fin 2, Fin 4)\<rparr>)
       (Some [example_game ''Azul'' [example_entry 3 (Fin 1) (Fin 10)],
              example_game ''Brass'' [example_entry 3 (Fin 5) (Fin 80),
                                      example_entry 4 (Fin 9) (Fin 20)]])))
     = [''Brass'', ''Azul'']"
proof -
  let ?imp = "spec_Imports codepoint_compare"
  let ?s1 = "example_state\<lparr>playerCountRange := (Fin 3, Fin 3)\<rparr>"
  let ?s2 = "example_state\<lparr>playerCountRange := (Fin 2, Fin 4)\<rparr>"
  let ?azul = "example_game ''Azul'' [example_entry 3 (Fin 1) (Fin 10)]"
  let ?brass = "example_game ''Brass'' [example_entry 3 (Fin 5) (Fin 80),
                                        example_entry 4 (Fin 9) (Fin 20)]"
  let ?narrow = "[addIsPlayerCountWithinRange ?s1 ?azul]"
  let ?wide = "[addIsPlayerCountWithinRange ?s2 ?brass, addIsPlayerCountWithinRange ?s2 ?azul]"
  have narrow: "applyFiltersAndSorts ?imp ?s1 (Some [?azul, ?brass]) = Some ?narrow"
    by (simp add: pipeline_defs example_defs)
  have wide: "applyFiltersAndSorts ?imp ?s2 (Some [?azul, ?brass]) = Some ?wide"
    by (simp add: pipeline_defs example_defs)
  have contains: "range_contains (Fin 2, Fin 4) (Fin 3, Fin 3)"
    by (simp add: range_contains_def)
  have differ:
    "(?s1 = example_state\<lparr>playerCountRange := (Fin 3, Fin 3)\<rparr> \<and>
      ?s2 = example_state\<lparr>playerCountRange := (Fin 2, Fin 4)\<rparr>) \<or>
     (?s1 = example_state\<lparr>playtimeRange := (Fin 3, Fin 3)\<rparr> \<and>
      ?s2 = example_state\<lparr>playtimeRange := (Fin 2, Fin 4)\<rparr>) \<or>
     (?s1 = example_state\<lparr>complexityRange := (Fin 3, Fin 3)\<rparr> \<and>
      ?s2 = example_state\<lparr>complexityRange := (Fin 2, Fin 4)\<rparr>) \<or>
     (?s1 = example_state\<lparr>ratingsRange := (Fin 3, Fin 3)\<rparr> \<and>
      ?s2 = example_state\<lparr>ratingsRange := (Fin 2, Fin 4)\<rparr>)"
    by simp
  have w: "unannotated ` set ?narrow \<subseteq> unannotated ` set ?wide"
    by (rule filter_monotonicity [OF narrow wide contains differ])
  have names1: "map name ?narrow = [''Azul'']"
    by (simp add: addIsPlayerCountWithinRange_def with_recommendedPlayerCount_def
        example_game_def)
  have names2: "map name ?wide = [''Brass'', ''Azul'']"
    by (simp add: addIsPlayerCountWithinRange_def with_recommendedPlayerCount_def
        example_game_def)
  from w names1 names2 show ?thesis
    unfolding narrow wide option.sel by blast
qed


section \<open>The order of the result\<close>

lemma sum_of_finite_scores:
  fixes rs :: "('z PollEntry_scheme) list"
  assumes "\<forall>rec \<in> set rs. isFinite (sortScore rec)"
  shows "\<exists>y. foldl (\<lambda>prev curr. js_add (sortScore curr) prev) (Fin a) rs = Fin y"
  using assms
proof (induction rs arbitrary: a)
  case Nil
  show ?case by simp
next
  case (Cons r rs)
  from Cons.prems obtain x where x: "sortScore r = Fin x"
    by (cases "sortScore r") (simp_all add: isFinite_def)
  from Cons.prems have rest: "\<forall>rec \<in> set rs. isFinite (sortScore rec)"
    by simp
  show ?case
    using Cons.IH [OF rest, of "x + a"] by (simp add: x)
qed

lemma calcSortScoreSum_finite:
  fixes g :: "('z PollEntry_scheme) Game"
  assumes "\<forall>rec \<in> set (recommendedPlayerCount g). isFinite (sortScore rec)"
  shows "calcSortScoreSum g lo hi \<noteq> NaN"
proof -
  let ?rs = "filter (\<lambda>e. js_le lo (playerCountValue e) \<and> js_le (playerCountValue e) hi)
               (recommendedPlayerCount g)"
  have "\<forall>rec \<in> set ?rs. isFinite (sortScore rec)"
    using assms by simp
  from sum_of_finite_scores [OF this, of 0] show ?thesis
    unfolding calcSortScoreSum_def by auto
qed

text \<open>The poll entries of an item of the result carry scores of the item it came from.\<close>

lemma output_scores_finite:
  assumes out: "applyFiltersAndSorts imp filterState (Some games) = Some out"
    and fin: "\<forall>g \<in> set games. \<forall>rec \<in> set (recommendedPlayerCount g). isFinite (sortScore rec)"
    and item: "item \<in> set out"
  shows "\<forall>rec \<in> set (recommendedPlayerCount item). isFinite (sortScore rec)"
proof -
  have "unannotated item \<in> unannotated ` set out"
    using item by simp
  then obtain g where g: "g \<in> set games"
    and from_g: "unannotated item = maybeShowInvalidPlayerCount filterState g"
    unfolding unannotated_output [OF out] by auto
  have sub: "set (recommendedPlayerCount (maybeShowInvalidPlayerCount filterState g))
             \<subseteq> set (recommendedPlayerCount g)"
    by (auto simp: maybeShowInvalidPlayerCount_def)
  have same: "sortScore ` set (recommendedPlayerCount item)
              = sortScore ` set (recommendedPlayerCount (unannotated item))"
    by (simp add: unannotated_def with_recommendedPlayerCount_def image_image)
  show ?thesis
  proof
    fix rec
    assume "rec \<in> set (recommendedPlayerCount item)"
    then have "sortScore rec \<in> sortScore ` set (recommendedPlayerCount (unannotated item))"
      using same by blast
    then obtain r0 where "r0 \<in> set (recommendedPlayerCount g)" "sortScore rec = sortScore r0"
      unfolding from_g using sub by blast
    with fin g show "isFinite (sortScore rec)"
      by simp
  qed
qed

text \<open>
  C3. Let \<open>out\<close> be the result of \<open>applyFiltersAndSorts\<close> on a collection. For every
  state whose player-count range is not exactly \<open>[1, +Infinity)\<close>, \<open>out\<close> is ordered
  descending by the sum of \<open>sortScore\<close> over the item's poll entries whose
  \<open>playerCountValue\<close> lies in the range; the scores of the collection are finite numbers,
  as the data model has them. For every state whose range is \<open>[1, +Infinity)\<close>, \<open>out\<close> is
  ordered ascending by name under the locale comparison, which the language requires to
  be a consistent comparator.
\<close>

theorem sort_stage_order:
  assumes out: "applyFiltersAndSorts imp filterState (Some games) = Some out"
  shows
    "(playerCountRange filterState \<noteq> (Fin 1, PosInf) \<and>
      (\<forall>g \<in> set games. \<forall>rec \<in> set (recommendedPlayerCount g). isFinite (sortScore rec))
      \<longrightarrow> sorted_wrt
            (\<lambda>a b. js_ge (calcSortScoreSum a (fst (playerCountRange filterState))
                                            (snd (playerCountRange filterState)))
                          (calcSortScoreSum b (fst (playerCountRange filterState))
                                            (snd (playerCountRange filterState))))
            out) \<and>
     (playerCountRange filterState = (Fin 1, PosInf) \<and>
      consistent_comparator (localeCompare imp)
      \<longrightarrow> sorted_wrt (\<lambda>a b. localeCompare imp (name a) (name b) \<le> 0) out)"
proof -
  obtain xs where xs: "out = array_sort (maybeSortByScore imp filterState) xs"
    using applyFiltersAndSorts_sorted_form [OF out] by blast
  have same: "set xs = set out"
    by (simp add: xs set_array_sort)
  have sums: "\<forall>g \<in> set xs. calcSortScoreSum g (fst (playerCountRange filterState))
                 (snd (playerCountRange filterState)) \<noteq> NaN"
    if "\<forall>g \<in> set games. \<forall>rec \<in> set (recommendedPlayerCount g). isFinite (sortScore rec)"
  proof
    fix g assume "g \<in> set xs"
    then have "g \<in> set out" using same by simp
    from output_scores_finite [OF out that this]
    show "calcSortScoreSum g (fst (playerCountRange filterState))
            (snd (playerCountRange filterState)) \<noteq> NaN"
      by (rule calcSortScoreSum_finite)
  qed
  have score: "sorted_wrt
            (\<lambda>a b. js_ge (calcSortScoreSum a (fst (playerCountRange filterState))
                                            (snd (playerCountRange filterState)))
                          (calcSortScoreSum b (fst (playerCountRange filterState))
                                            (snd (playerCountRange filterState))))
            out"
    if "playerCountRange filterState \<noteq> (Fin 1, PosInf)"
      "\<forall>g \<in> set games. \<forall>rec \<in> set (recommendedPlayerCount g). isFinite (sortScore rec)"
    unfolding xs by (rule sorted_by_score [OF that(1) sums [OF that(2)]])
  have by_name: "sorted_wrt (\<lambda>a b. localeCompare imp (name a) (name b) \<le> 0) out"
    if "playerCountRange filterState = (Fin 1, PosInf)"
      "consistent_comparator (localeCompare imp)"
    unfolding xs by (rule sorted_by_name [OF that])
  from score by_name show ?thesis by blast
qed

theorem sort_stage_order_witness:
  "map name (the (applyFiltersAndSorts (spec_Imports codepoint_compare) example_state
     (Some [example_game ''Azul'' [example_entry 3 (Fin 1) (Fin 10)],
            example_game ''Brass'' [example_entry 3 (Fin 5) NaN, example_entry 4 (Fin 9) NaN],
            example_game ''Catan'' [example_entry 3 (Fin 2) (Fin 10)]])))
     = [''Brass'', ''Catan'', ''Azul''] \<and>
   sorted_wrt (\<lambda>a b. js_ge (calcSortScoreSum a (Fin 3) (Fin 3))
                          (calcSortScoreSum b (Fin 3) (Fin 3)))
     (the (applyFiltersAndSorts (spec_Imports codepoint_compare) example_state
       (Some [example_game ''Azul'' [example_entry 3 (Fin 1) (Fin 10)],
              example_game ''Brass'' [example_entry 3 (Fin 5) NaN, example_entry 4 (Fin 9) NaN],
              example_game ''Catan'' [example_entry 3 (Fin 2) (Fin 10)]]))) \<and>
   map name (the (applyFiltersAndSorts (spec_Imports codepoint_compare)
     (example_state\<lparr>playerCountRange := (Fin 1, PosInf)\<rparr>)
     (Some [example_game ''Catan'' [example_entry 3 (Fin 1) (Fin 10)],
            example_game ''Brass'' [example_entry 3 (Fin 5) NaN],
            example_game ''Azul'' [example_entry 3 (Fin 2) (Fin 10)]])))
     = [''Azul'', ''Brass'', ''Catan''] \<and>
   sorted_wrt (\<lambda>a b. codepoint_compare (name a) (name b) \<le> 0)
     (the (applyFiltersAndSorts (spec_Imports codepoint_compare)
       (example_state\<lparr>playerCountRange := (Fin 1, PosInf)\<rparr>)
       (Some [example_game ''Catan'' [example_entry 3 (Fin 1) (Fin 10)],
              example_game ''Brass'' [example_entry 3 (Fin 5) NaN],
              example_game ''Azul'' [example_entry 3 (Fin 2) (Fin 10)]])))"
proof -
  let ?imp = "spec_Imports codepoint_compare"
  let ?in1 = "[example_game ''Azul'' [example_entry 3 (Fin 1) (Fin 10)],
              example_game ''Brass'' [example_entry 3 (Fin 5) NaN, example_entry 4 (Fin 9) NaN],
              example_game ''Catan'' [example_entry 3 (Fin 2) (Fin 10)]]"
  let ?out1 = "[addIsPlayerCountWithinRange example_state
                  (example_game ''Brass''
                     [example_entry 3 (Fin 5) NaN, example_entry 4 (Fin 9) NaN]),
                addIsPlayerCountWithinRange example_state
                  (example_game ''Catan'' [example_entry 3 (Fin 2) (Fin 10)]),
                addIsPlayerCountWithinRange example_state
                  (example_game ''Azul'' [example_entry 3 (Fin 1) (Fin 10)])]"
  let ?s2 = "example_state\<lparr>playerCountRange := (Fin 1, PosInf)\<rparr>"
  let ?in2 = "[example_game ''Catan'' [example_entry 3 (Fin 1) (Fin 10)],
              example_game ''Brass'' [example_entry 3 (Fin 5) NaN],
              example_game ''Azul'' [example_entry 3 (Fin 2) (Fin 10)]]"
  let ?out2 = "[addIsPlayerCountWithinRange ?s2
                  (example_game ''Azul'' [example_entry 3 (Fin 2) (Fin 10)]),
                addIsPlayerCountWithinRange ?s2
                  (example_game ''Brass'' [example_entry 3 (Fin 5) NaN]),
                addIsPlayerCountWithinRange ?s2
                  (example_game ''Catan'' [example_entry 3 (Fin 1) (Fin 10)])]"
  have out1: "applyFiltersAndSorts ?imp example_state (Some ?in1) = Some ?out1"
    by (simp add: pipeline_defs example_defs)
  have out2: "applyFiltersAndSorts ?imp ?s2 (Some ?in2) = Some ?out2"
    by (simp add: pipeline_defs example_defs)
  have names1: "map name ?out1 = [''Brass'', ''Catan'', ''Azul'']"
    by (simp add: addIsPlayerCountWithinRange_def with_recommendedPlayerCount_def
        example_game_def example_state_def)
  have names2: "map name ?out2 = [''Azul'', ''Brass'', ''Catan'']"
    by (simp add: addIsPlayerCountWithinRange_def with_recommendedPlayerCount_def
        example_game_def example_state_def)
  have r1: "playerCountRange example_state \<noteq> (Fin 1, PosInf)"
    and r1': "playerCountRange example_state = (Fin 3, Fin 3)"
    by (simp_all add: example_state_def)
  have h1: "\<forall>g \<in> set ?in1. \<forall>rec \<in> set (recommendedPlayerCount g). isFinite (sortScore rec)"
    by (simp add: example_game_def example_entry_def isFinite_def)
  have r2: "playerCountRange ?s2 = (Fin 1, PosInf)"
    by simp
  have h2: "consistent_comparator (localeCompare ?imp)"
    by (simp add: spec_Imports_def consistent_codepoint_compare)
  have w1: "sorted_wrt (\<lambda>a b. js_ge (calcSortScoreSum a (Fin 3) (Fin 3))
                          (calcSortScoreSum b (Fin 3) (Fin 3))) ?out1"
    using sort_stage_order [OF out1] r1 h1 unfolding r1' fst_conv snd_conv by blast
  have lc: "localeCompare ?imp = codepoint_compare"
    by (simp add: spec_Imports_def)
  have w2: "sorted_wrt (\<lambda>a b. codepoint_compare (name a) (name b) \<le> 0) ?out2"
    using sort_stage_order [OF out2] r2 h2 unfolding lc by blast
  from names1 w1 names2 w2 show ?thesis
    unfolding out1 out2 option.sel by blast
qed

end
